theory Spec2Isabelle
  imports Complex_Main
begin

section \<open>Python values, exceptions and built-ins used by the two scripts\<close>

text \<open>
  The development embeds \<^verbatim>\<open>generate_examples_main.py\<close> and
  \<^verbatim>\<open>create_cloud_labeling_task.py\<close>. Every \<^verbatim>\<open>raise\<close> of the scripts
  is a \<open>ValueError\<close> with the message of the source; \<open>KeyError\<close>,
  \<open>AttributeError\<close> and \<open>OverflowError\<close> are the exceptions Python itself raises
  for a missing column, for a method call on \<^verbatim>\<open>None\<close> and for
  \<^verbatim>\<open>float\<close> of an integer beyond the range of a float. An exception raised inside one of the \<^verbatim>\<open>skai\<close>
  collaborators (whose code is outside these two files) is propagated unchanged by the
  scripts; it is kept apart as \<open>CollaboratorError\<close>.
\<close>

datatype error =
    ValueError string
  | KeyError string
  | AttributeError string
  | OverflowError string
  | CollaboratorError string

text \<open>
  A Python float: a finite value, given by the real number it denotes, the negative
  zero, an infinity, or not-a-number.
\<close>

datatype py_float = Finite real | NegZero | PosInf | NegInf | NaN

text \<open>
  The value found in a column of a row. Python's \<^verbatim>\<open>bool\<close> is a subclass of
  \<^verbatim>\<open>int\<close>, so \<open>PyBool\<close> passes \<^verbatim>\<open>isinstance(label, (int, float))\<close>.
  \<open>PyOther\<close> carries the printed type of any other object.
\<close>

datatype py_value =
    PyStr string
  | PyBool bool
  | PyInt int
  | PyFloat py_float
  | PyNone
  | PyOther string

definition type_repr :: "py_value \<Rightarrow> string" where
  \<open>type_repr v =
     (case v of
        PyStr _ \<Rightarrow> ''<class 'str'>''
      | PyBool _ \<Rightarrow> ''<class 'bool'>''
      | PyInt _ \<Rightarrow> ''<class 'int'>''
      | PyFloat _ \<Rightarrow> ''<class 'float'>''
      | PyNone \<Rightarrow> ''<class 'NoneType'>''
      | PyOther t \<Rightarrow> t)\<close>

text \<open>
  \<^verbatim>\<open>float(n)\<close> of an integer. A float has 53 significant bits: an integer of
  at most 53 bits is converted exactly, a longer one is rounded to 53 bits, to the nearer
  neighbour and to the even one when halfway, and one whose rounded magnitude reaches
  \<open>2 ^ 1024\<close> raises \<open>OverflowError\<close>. \<open>bit_length\<close> is \<^verbatim>\<open>int.bit_length\<close>.
\<close>

fun bit_length :: "nat \<Rightarrow> nat" where
  "bit_length n = (if n = 0 then 0 else Suc (bit_length (n div 2)))"

declare bit_length.simps [simp del]

definition round_to_double :: "nat \<Rightarrow> nat" where
  "round_to_double m =
     (let e = bit_length m - 53 in
      if e = 0 then m
      else
        let q = m div 2 ^ e; r = m mod 2 ^ e; half = 2 ^ (e - 1);
            q' = (if half < r \<or> (r = half \<and> odd q) then q + 1 else q)
        in q' * 2 ^ e)"

definition py_float_of_int :: "int \<Rightarrow> error + py_float" where
  "py_float_of_int n =
     (let m = round_to_double (nat \<bar>n\<bar>) in
      if 2 ^ 1024 \<le> m then Inl (OverflowError ''int too large to convert to float'')
      else Inr (Finite (if n < 0 then - real m else real m)))"

text \<open>\<^verbatim>\<open>s.startswith(p)\<close>: the first \<open>len(p)\<close> characters of \<open>s\<close> are \<open>p\<close>.\<close>

definition startswith :: "string \<Rightarrow> string \<Rightarrow> bool" where
  "startswith s p = (take (length p) s = p)"

text \<open>
  \<^verbatim>\<open>s.partition(sep)\<close> for a one-character separator: the part before the first
  occurrence, the separator, the part after it; \<^verbatim>\<open>(s, '', '')\<close> when there is none.
\<close>

definition str_partition :: "string \<Rightarrow> char \<Rightarrow> string \<times> string \<times> string" where
  "str_partition s sep =
     (if sep \<in> set s
      then (takeWhile (\<lambda>c. c \<noteq> sep) s, [sep], tl (dropWhile (\<lambda>c. c \<noteq> sep) s))
      else (s, [], []))"

text \<open>\<^verbatim>\<open>xs.index(x)\<close>: the first position of \<open>x\<close>, \<open>ValueError\<close> when absent.\<close>

fun list_index :: "string list \<Rightarrow> string \<Rightarrow> error + nat" where
  "list_index [] x = Inl (ValueError (x @ '' is not in list''))"
| "list_index (y # ys) x =
     (if y = x then Inr 0
      else (case list_index ys x of Inl e \<Rightarrow> Inl e | Inr i \<Rightarrow> Inr (Suc i)))"

text \<open>
  \<^verbatim>\<open>xs[:n]\<close>: the first \<open>n\<close> elements for \<open>n \<ge> 0\<close>; for a negative \<open>n\<close> Python
  counts from the end, so the last \<open>-n\<close> elements are dropped.
\<close>

definition slice_to :: "'a list \<Rightarrow> int \<Rightarrow> 'a list" where
  "slice_to xs n =
     (if 0 \<le> n then take (nat n) xs
      else take (nat (int (length xs) + n)) xs)"

text \<open>\<^verbatim>\<open>str(x)\<close> inside an f-string, for a flag that may be \<^verbatim>\<open>None\<close>.\<close>

definition str_of_flag :: "string option \<Rightarrow> string" where
  "str_of_flag x = (case x of None \<Rightarrow> ''None'' | Some s \<Rightarrow> s)"

text \<open>Truthiness of a string flag: \<^verbatim>\<open>None\<close> and \<^verbatim>\<open>''\<close> are false.\<close>

definition truthy :: "string option \<Rightarrow> bool" where
  "truthy x = (case x of None \<Rightarrow> False | Some s \<Rightarrow> s \<noteq> [])"

text \<open>
  \<^verbatim>\<open>os.path.join(a, b)\<close> (posixpath): an absolute \<open>b\<close> replaces \<open>a\<close>; otherwise
  \<open>b\<close> is appended, after a slash unless \<open>a\<close> is empty or ends with one.
\<close>

definition path_join2 :: "string \<Rightarrow> string \<Rightarrow> string" where
  "path_join2 a b =
     (if startswith b ''/'' then b
      else if a = [] \<or> last a = CHR ''/'' then a @ b
      else a @ ''/'' @ b)"

definition os_path_join :: "string \<Rightarrow> string list \<Rightarrow> string" where
  "os_path_join a ps = foldl path_join2 a ps"

section \<open>The flags of \<^verbatim>\<open>generate_examples_main.py\<close>\<close>

datatype buildings_method = File | OpenStreetMap | NoBuildings

text \<open>
  \<open>NoBuildings\<close> is the flag value \<^verbatim>\<open>'none'\<close>; \<^verbatim>\<open>DEFINE_enum\<close> admits no fourth
  value. A flag whose default is \<^verbatim>\<open>None\<close> is an option.
\<close>

record flags =
  cloud_project :: "string option"
  cloud_region :: "string option"
  use_dataflow :: bool
  worker_service_account :: "string option"
  dataset_name :: "string option"
  before_image_path :: string
  after_image_path :: string
  aoi_path :: "string option"
  output_dir :: string
  example_patch_size :: int
  alignment_patch_size :: int
  resolution :: real
  output_shards :: int
  dataflow_container_image :: "string option"
  gdal_env :: "string list"
  buildings_method :: buildings_method
  buildings_file :: "string option"
  overpass_url :: string
  labels_file :: "string option"
  label_property :: "string option"
  label_classes :: "string list"
  num_keep_labeled_examples :: "int option"
  create_cloud_labeling_task :: bool
  labeling_patch_size :: int
  num_labeling_examples :: int
  cloud_labeler_pool :: "string option"
  cloud_labeler_emails :: "string list option"
  labeler_instructions_uri :: string
  label_inputs_schema_uri :: string

text \<open>The declared defaults, for the three required flags given.\<close>

definition default_flags :: "string \<Rightarrow> string \<Rightarrow> string \<Rightarrow> flags" where
  "default_flags before after out =
     \<lparr> cloud_project = None,
       cloud_region = None,
       use_dataflow = False,
       worker_service_account = None,
       dataset_name = None,
       before_image_path = before,
       after_image_path = after,
       aoi_path = None,
       output_dir = out,
       example_patch_size = 64,
       alignment_patch_size = 256,
       resolution = 0.5,
       output_shards = 20,
       dataflow_container_image = None,
       gdal_env = [],
       buildings_method = File,
       buildings_file = None,
       overpass_url = ''https://lz4.overpass-api.de/api/interpreter'',
       labels_file = None,
       label_property = None,
       label_classes = [''undamaged'', ''damaged''],
       num_keep_labeled_examples = Some 1000,
       create_cloud_labeling_task = False,
       labeling_patch_size = 256,
       num_labeling_examples = 500,
       cloud_labeler_pool = None,
       cloud_labeler_emails = None,
       labeler_instructions_uri = ''gs://skai-public/labeling_instructions.pdf'',
       label_inputs_schema_uri =
         ''gs://google-cloud-aiplatform/schema/datalabelingjob/inputs/image_classification_1.0.0.yaml'' \<rparr>"

section \<open>Region routing\<close>

text \<open>\<^verbatim>\<open>_get_labeling_dataset_region\<close> of \<^verbatim>\<open>generate_examples_main.py\<close>.\<close>

definition get_labeling_dataset_region :: "string \<Rightarrow> string" where
  "get_labeling_dataset_region project_region =
     (if startswith project_region ''europe-'' then ''europe-west4''
      else ''us-central1'')"

text \<open>The function of the same name in \<^verbatim>\<open>create_cloud_labeling_task.py\<close>.\<close>

definition task_get_labeling_dataset_region :: "string \<Rightarrow> string" where
  "task_get_labeling_dataset_region project_region =
     (if startswith project_region ''europe-'' then ''europe-west4''
      else ''us-central1'')"

section \<open>The raster-I/O environment\<close>

definition gdal_env_message :: string where
  \<open>gdal_env_message =
     ''Each element in the gdal_env flag should have the form "var=value".''\<close>

text \<open>The loop of \<^verbatim>\<open>_get_gdal_env\<close>; \<open>acc\<close> is the dictionary built so far.\<close>

fun gdal_env_loop :: "string list \<Rightarrow> (string \<rightharpoonup> string) \<Rightarrow> error + (string \<rightharpoonup> string)" where
  "gdal_env_loop [] acc = Inr acc"
| "gdal_env_loop (setting # rest) acc =
     (if CHR ''='' \<notin> set setting then Inl (ValueError gdal_env_message)
      else (case str_partition setting CHR ''='' of
              (var, _, val) \<Rightarrow> gdal_env_loop rest (acc(var \<mapsto> val))))"

definition get_gdal_env :: "flags \<Rightarrow> error + (string \<rightharpoonup> string)" where
  "get_gdal_env FLAGS = gdal_env_loop (gdal_env FLAGS) Map.empty"

section \<open>Rows, collaborators and the trace of external calls\<close>

type_synonym point = "real \<times> real"
type_synonym polygon = "point list"
type_synonym labeled_coordinate = "real \<times> real \<times> py_float"

text \<open>
  A row of the data frame \<^verbatim>\<open>gpd.read_file(path).to_crs(epsg=4326)\<close>: the centroid of
  its geometry, \<^verbatim>\<open>(centroid.x, centroid.y)\<close>, and its columns by name.
\<close>

record row =
  centroid :: point
  columns :: "string \<rightharpoonup> py_value"

text \<open>\<^verbatim>\<open>row[key]\<close>: \<open>KeyError\<close> when there is no such column.\<close>

definition row_get :: "row \<Rightarrow> string option \<Rightarrow> error + py_value" where
  "row_get r key =
     (case key of
        None \<Rightarrow> Inl (KeyError ''None'')
      | Some k \<Rightarrow> (case columns r k of None \<Rightarrow> Inl (KeyError k) | Some v \<Rightarrow> Inr v))"

text \<open>The seventeen arguments of \<^verbatim>\<open>generate_examples.generate_examples_pipeline\<close>.\<close>

record pipeline_args =
  pa_before_image_path :: string
  pa_after_image_path :: string
  pa_example_patch_size :: int
  pa_alignment_patch_size :: int
  pa_labeling_patch_size :: int
  pa_resolution :: real
  pa_output_dir :: string
  pa_output_shards :: int
  pa_building_centroids :: "point list"
  pa_labeled_coordinates :: "labeled_coordinate list"
  pa_use_dataflow :: bool
  pa_num_labeling_examples :: int
  pa_gdal_env :: "string \<rightharpoonup> string"
  pa_dataflow_container_image :: "string option"
  pa_cloud_project :: "string option"
  pa_cloud_region :: "string option"
  pa_worker_service_account :: "string option"

text \<open>One event per call of a collaborator, with the arguments of the call.\<close>

datatype event =
    ReadAois "string option"
  | ReadBuildingsFile "string option" "polygon list"
  | GetBuildingCentroidsInRegions "polygon list" string
  | ReadFile string
  | GenerateExamplesPipeline pipeline_args
  | CreateLabelingImages string int string
  | CreateSpecialistPool "string option" "string option" string "string list" "string list"
  | CreateCloudLabelingJob "string option" string string string string string string

text \<open>The broken-down local time read by \<^verbatim>\<open>time.strftime\<close>, to the second.\<close>

record struct_time =
  tm_year :: nat
  tm_mon :: nat
  tm_mday :: nat
  tm_hour :: nat
  tm_min :: nat
  tm_sec :: nat

text \<open>
  What the scripts do not compute themselves: the interpreter's version string, the
  clock, and the \<^verbatim>\<open>skai\<close> collaborators. A collaborator returns its value or
  raises; \<open>Inl\<close> carries the message of what it raised.
\<close>

record env =
  python_version :: string
  localtime :: struct_time
  read_aois :: "string option \<Rightarrow> string + polygon list"
  read_buildings_file :: "string option \<Rightarrow> polygon list \<Rightarrow> string + point list"
  get_building_centroids_in_regions :: "polygon list \<Rightarrow> string \<Rightarrow> string + point list"
  read_file :: "string \<Rightarrow> string + row list"
  generate_examples_pipeline :: "pipeline_args \<Rightarrow> string + unit"
  create_labeling_images :: "string \<Rightarrow> int \<Rightarrow> string \<Rightarrow> string + int \<times> string"
  create_specialist_pool ::
    "string option \<Rightarrow> string option \<Rightarrow> string \<Rightarrow> string list \<Rightarrow> string list \<Rightarrow> string + string"
  create_cloud_labeling_job ::
    "string option \<Rightarrow> string \<Rightarrow> string \<Rightarrow> string \<Rightarrow> string \<Rightarrow> string \<Rightarrow> string \<Rightarrow> string + unit"

text \<open>
  A run takes the trace of the calls made so far and returns its result, a value or
  the exception that ended it, with the extended trace.
\<close>

type_synonym 'a run = "event list \<Rightarrow> (error + 'a) \<times> event list"

definition returns :: "'a \<Rightarrow> 'a run" where
  "returns a = (\<lambda>t. (Inr a, t))"

definition raise :: "error \<Rightarrow> 'a run" where
  "raise e = (\<lambda>t. (Inl e, t))"

definition lift :: "error + 'a \<Rightarrow> 'a run" where
  "lift r = (\<lambda>t. (r, t))"

definition call :: "event \<Rightarrow> string + 'a \<Rightarrow> 'a run" where
  "call ev r =
     (\<lambda>t. (case r of Inl msg \<Rightarrow> Inl (CollaboratorError msg) | Inr a \<Rightarrow> Inr a, t @ [ev]))"

definition andthen :: "'a run \<Rightarrow> ('a \<Rightarrow> 'b run) \<Rightarrow> 'b run" where
  "andthen m f =
     (\<lambda>t. case m t of (Inl e, t') \<Rightarrow> (Inl e, t') | (Inr a, t') \<Rightarrow> f a t')"

section \<open>Time stamps\<close>

definition digit :: "nat \<Rightarrow> char" where
  "digit d = ''0123456789'' ! d"

fun str_of_nat :: "nat \<Rightarrow> string" where
  "str_of_nat n = (if n < 10 then [digit n] else str_of_nat (n div 10) @ [digit (n mod 10)])"

declare str_of_nat.simps [simp del]

text \<open>Two digits, zero-padded, as \<^verbatim>\<open>%m %d %H %M %S\<close> print a value below 100.\<close>

definition pad2 :: "nat \<Rightarrow> string" where
  "pad2 n = [digit (n div 10 mod 10), digit (n mod 10)]"

text \<open>\<^verbatim>\<open>time.strftime('%Y%m%d_%H%M%S')\<close> at the local time \<open>t\<close>.\<close>

definition strftime :: "struct_time \<Rightarrow> string" where
  "strftime t =
     str_of_nat (tm_year t) @ pad2 (tm_mon t) @ pad2 (tm_mday t) @ ''_''
       @ pad2 (tm_hour t) @ pad2 (tm_min t) @ pad2 (tm_sec t)"


text \<open>\<^verbatim>\<open>f'{FLAGS.dataset_name}_{timestamp}'\<close>, in both scripts.\<close>

definition timestamped_dataset_of :: "string option \<Rightarrow> struct_time \<Rightarrow> string" where
  "timestamped_dataset_of name t = str_of_flag name @ ''_'' @ strftime t"

section \<open>Building centroids\<close>

definition buildings_method_message :: string where
  \<open>buildings_method_message = ''Invalid value for "buildings_method" flag.''\<close>

text \<open>
  \<^verbatim>\<open>get_building_centroids\<close>: the two branches call a collaborator; any other flag
  value, which can only be \<^verbatim>\<open>'none'\<close>, reaches the \<^verbatim>\<open>raise\<close>.
\<close>

definition get_building_centroids :: "flags \<Rightarrow> env \<Rightarrow> polygon list \<Rightarrow> point list run" where
  "get_building_centroids FLAGS world regions =
     (if buildings_method FLAGS = File
      then call (ReadBuildingsFile (buildings_file FLAGS) regions)
             (read_buildings_file world (buildings_file FLAGS) regions)
      else if buildings_method FLAGS = OpenStreetMap
      then call (GetBuildingCentroidsInRegions regions (overpass_url FLAGS))
             (get_building_centroids_in_regions world regions (overpass_url FLAGS))
      else raise (ValueError buildings_method_message))"

section \<open>Label ingestion\<close>

text \<open>
  The loop of \<^verbatim>\<open>_read_labels_file\<close> over the rows, \<open>coordinates\<close> being the list
  appended to. The \<^verbatim>\<open>except ValueError\<close> around \<^verbatim>\<open>class_names.index\<close> goes on
  to the next row; it does not catch what \<^verbatim>\<open>float\<close> raises. \<^verbatim>\<open>float\<close> of a
  float returns it unchanged.
\<close>

fun read_labels_loop ::
  "string option \<Rightarrow> string list \<Rightarrow> row list \<Rightarrow> labeled_coordinate list
    \<Rightarrow> error + labeled_coordinate list" where
  "read_labels_loop prop class_names [] coordinates = Inr coordinates"
| "read_labels_loop prop class_names (r # rest) coordinates =
     (case row_get r prop of
        Inl e \<Rightarrow> Inl e
      | Inr label \<Rightarrow>
          (case label of
             PyStr s \<Rightarrow>
               (case list_index class_names s of
                  Inl e \<Rightarrow>
                    (case e of
                       ValueError _ \<Rightarrow> read_labels_loop prop class_names rest coordinates
                     | _ \<Rightarrow> Inl e)
                | Inr i \<Rightarrow>
                    (case py_float_of_int (int i) of
                       Inl e \<Rightarrow> Inl e
                     | Inr float_label \<Rightarrow>
                         read_labels_loop prop class_names rest
                           (coordinates @ [(fst (centroid r), snd (centroid r), float_label)])))
           | PyBool b \<Rightarrow>
               read_labels_loop prop class_names rest
                 (coordinates @
                    [(fst (centroid r), snd (centroid r), Finite (if b then 1 else 0))])
           | PyInt n \<Rightarrow>
               (case py_float_of_int n of
                  Inl e \<Rightarrow> Inl e
                | Inr float_label \<Rightarrow>
                    read_labels_loop prop class_names rest
                      (coordinates @ [(fst (centroid r), snd (centroid r), float_label)]))
           | PyFloat x \<Rightarrow>
               read_labels_loop prop class_names rest
                 (coordinates @ [(fst (centroid r), snd (centroid r), x)])
           | _ \<Rightarrow>
               Inl (ValueError (''Unrecognized label property type '' @ type_repr label))))"

text \<open>
  \<^verbatim>\<open>_read_labels_file\<close>: read the file, run the loop, then cut the list when
  \<^verbatim>\<open>FLAGS.num_keep_labeled_examples\<close> is neither \<^verbatim>\<open>None\<close> nor 0.
\<close>

definition read_labels_file ::
  "flags \<Rightarrow> env \<Rightarrow> string \<Rightarrow> string option \<Rightarrow> string list \<Rightarrow> labeled_coordinate list run" where
  "read_labels_file FLAGS world path prop class_names =
     andthen (call (ReadFile path) (read_file world path)) (\<lambda>df.
     andthen (lift (read_labels_loop prop class_names df [])) (\<lambda>coordinates.
       returns
         (case num_keep_labeled_examples FLAGS of
            None \<Rightarrow> coordinates
          | Some n \<Rightarrow> if n \<noteq> 0 then slice_to coordinates n else coordinates)))"

section \<open>The orchestrator of \<^verbatim>\<open>generate_examples_main.py\<close>\<close>

definition container_image_message :: string where
  \<open>container_image_message =
     ''dataflow_container_image must be specified when using Dataflow and your Python version != 3.7, 3.8, or 3.9.''\<close>

definition no_work_message :: string where
  \<open>no_work_message =
     ''At least labels_file (for labeled examples extraction) or buildings_method != none (for unlabeled data) should be specified.''\<close>

definition dataset_name_message :: string where
  \<open>dataset_name_message = ''Dataset name must be specified with "--dataset_name"''\<close>

definition labeler_email_message :: string where
  \<open>labeler_email_message = ''Must provide at least one labeler email.''\<close>

definition none_startswith_message :: string where
  \<open>none_startswith_message =
     CHR 0x27 # ''NoneType' object has no attribute 'startswith'' @ [CHR 0x27]\<close>

text \<open>
  \<^verbatim>\<open>main\<close>, the check of the container image at its start: \<open>py_version\<close> is
  \<^verbatim>\<open>platform.python_version()[:3]\<close>.
\<close>

definition main_container_image :: "flags \<Rightarrow> env \<Rightarrow> error + string option" where
  "main_container_image FLAGS world =
     (let py_version = take 3 (python_version world) in
      if use_dataflow FLAGS \<and> dataflow_container_image FLAGS = None then
        if py_version = ''3.7''
        then Inr (Some ''gcr.io/disaster-assessment/dataflow_3.7_image:latest'')
        else if py_version = ''3.8''
        then Inr (Some ''gcr.io/disaster-assessment/dataflow_3.8_image:latest'')
        else if py_version = ''3.9''
        then Inr (Some ''gcr.io/disaster-assessment/dataflow_3.9_image:latest'')
        else Inl (ValueError container_image_message)
      else Inr (dataflow_container_image FLAGS))"

text \<open>
  \<^verbatim>\<open>main\<close> from its start to the return of
  \<^verbatim>\<open>generate_examples.generate_examples_pipeline\<close>.
\<close>

definition main_generation :: "flags \<Rightarrow> env \<Rightarrow> unit run" where
  "main_generation FLAGS world =
     andthen (lift (main_container_image FLAGS world)) (\<lambda>container_image.
     andthen
       (if \<not> truthy (labels_file FLAGS) \<and> buildings_method FLAGS = NoBuildings
        then raise (ValueError no_work_message)
        else returns ()) (\<lambda>_.
     andthen
       (if buildings_method FLAGS \<noteq> NoBuildings
        then andthen (call (ReadAois (aoi_path FLAGS)) (read_aois world (aoi_path FLAGS)))
               (\<lambda>aoi. get_building_centroids FLAGS world aoi)
        else returns []) (\<lambda>building_centroids.
     andthen
       (case labels_file FLAGS of
          None \<Rightarrow> returns []
        | Some path \<Rightarrow>
            if path \<noteq> []
            then read_labels_file FLAGS world path (label_property FLAGS) (label_classes FLAGS)
            else returns []) (\<lambda>labeled_coordinates.
     andthen (lift (get_gdal_env FLAGS)) (\<lambda>gdal.
       let args =
         \<lparr> pa_before_image_path = before_image_path FLAGS,
           pa_after_image_path = after_image_path FLAGS,
           pa_example_patch_size = example_patch_size FLAGS,
           pa_alignment_patch_size = alignment_patch_size FLAGS,
           pa_labeling_patch_size = labeling_patch_size FLAGS,
           pa_resolution = resolution FLAGS,
           pa_output_dir = output_dir FLAGS,
           pa_output_shards = output_shards FLAGS,
           pa_building_centroids = building_centroids,
           pa_labeled_coordinates = labeled_coordinates,
           pa_use_dataflow = use_dataflow FLAGS,
           pa_num_labeling_examples = num_labeling_examples FLAGS,
           pa_gdal_env = gdal,
           pa_dataflow_container_image = container_image,
           pa_cloud_project = cloud_project FLAGS,
           pa_cloud_region = cloud_region FLAGS,
           pa_worker_service_account = worker_service_account FLAGS \<rparr>
       in call (GenerateExamplesPipeline args) (generate_examples_pipeline world args))))))"

text \<open>\<^verbatim>\<open>main\<close> after the pipeline has returned: the labeling task.\<close>

definition main_labeling_task :: "flags \<Rightarrow> env \<Rightarrow> unit run" where
  "main_labeling_task FLAGS world =
     (if create_cloud_labeling_task FLAGS then
        if \<not> truthy (dataset_name FLAGS) then raise (ValueError dataset_name_message)
        else
          let timestamped_dataset = timestamped_dataset_of (dataset_name FLAGS) (localtime world) in
          andthen
            (case cloud_labeler_pool FLAGS of
               Some pool \<Rightarrow> returns pool
             | None \<Rightarrow>
                 (case cloud_labeler_emails FLAGS of
                    None \<Rightarrow> raise (ValueError labeler_email_message)
                  | Some emails \<Rightarrow>
                      if emails = [] then raise (ValueError labeler_email_message)
                      else
                        let pool_display_name = timestamped_dataset @ ''_pool'' in
                        call (CreateSpecialistPool (cloud_project FLAGS) (cloud_region FLAGS)
                                pool_display_name (slice_to emails 1) emails)
                          (create_specialist_pool world (cloud_project FLAGS) (cloud_region FLAGS)
                             pool_display_name (slice_to emails 1) emails))) (\<lambda>labeler_pool.
          let import_file_uri =
            os_path_join (output_dir FLAGS) [''examples'', ''labeling_images'', ''import_file.csv'']
          in
          andthen
            (case cloud_region FLAGS of
               None \<Rightarrow> raise (AttributeError none_startswith_message)
             | Some project_region \<Rightarrow> returns (get_labeling_dataset_region project_region))
            (\<lambda>region.
               call (CreateCloudLabelingJob (cloud_project FLAGS) region timestamped_dataset
                       labeler_pool import_file_uri (labeler_instructions_uri FLAGS)
                       (label_inputs_schema_uri FLAGS))
                 (create_cloud_labeling_job world (cloud_project FLAGS) region timestamped_dataset
                    labeler_pool import_file_uri (labeler_instructions_uri FLAGS)
                    (label_inputs_schema_uri FLAGS))))
      else returns ())"

definition main :: "flags \<Rightarrow> env \<Rightarrow> unit run" where
  "main FLAGS world = andthen (main_generation FLAGS world) (\<lambda>_. main_labeling_task FLAGS world)"

section \<open>The script \<^verbatim>\<open>create_cloud_labeling_task.py\<close>\<close>

record task_flags =
  task_cloud_project :: string
  cloud_location :: string
  examples_pattern :: string
  images_dir :: string
  max_images :: int
  randomize :: bool
  task_dataset_name :: "string option"
  task_cloud_labeler_pool :: "string option"
  task_cloud_labeler_emails :: "string list option"
  task_labeler_instructions_uri :: string
  task_label_inputs_schema_uri :: string

definition task_main :: "task_flags \<Rightarrow> env \<Rightarrow> unit run" where
  "task_main FLAGS world =
     (let timestamped_dataset = timestamped_dataset_of (task_dataset_name FLAGS) (localtime world) in
      andthen
        (call (CreateLabelingImages (examples_pattern FLAGS) (max_images FLAGS) (images_dir FLAGS))
           (create_labeling_images world (examples_pattern FLAGS) (max_images FLAGS)
              (images_dir FLAGS))) (\<lambda>(num_images, import_file_path).
      andthen
        (case task_cloud_labeler_pool FLAGS of
           Some pool \<Rightarrow> returns pool
         | None \<Rightarrow>
             (case task_cloud_labeler_emails FLAGS of
                None \<Rightarrow> raise (ValueError labeler_email_message)
              | Some emails \<Rightarrow>
                  if emails = [] then raise (ValueError labeler_email_message)
                  else
                    let pool_display_name = timestamped_dataset @ ''_pool'' in
                    call (CreateSpecialistPool (Some (task_cloud_project FLAGS))
                            (Some (cloud_location FLAGS)) pool_display_name
                            (slice_to emails 1) emails)
                      (create_specialist_pool world (Some (task_cloud_project FLAGS))
                         (Some (cloud_location FLAGS)) pool_display_name
                         (slice_to emails 1) emails))) (\<lambda>labeler_pool.
        call (CreateCloudLabelingJob (Some (task_cloud_project FLAGS))
                (task_get_labeling_dataset_region (cloud_location FLAGS)) timestamped_dataset
                labeler_pool import_file_path (task_labeler_instructions_uri FLAGS)
                (task_label_inputs_schema_uri FLAGS))
          (create_cloud_labeling_job world (Some (task_cloud_project FLAGS))
             (task_get_labeling_dataset_region (cloud_location FLAGS)) timestamped_dataset
             labeler_pool import_file_path (task_labeler_instructions_uri FLAGS)
             (task_label_inputs_schema_uri FLAGS)))))"

section \<open>What a run may do\<close>

text \<open>
  \<open>run_spec m P Q E\<close>: from any trace, the run \<open>m\<close> only appends events that satisfy
  \<open>P\<close>, a value it returns satisfies \<open>Q\<close> and an exception it raises satisfies \<open>E\<close>.
\<close>

definition run_spec :: "'a run \<Rightarrow> (event \<Rightarrow> bool) \<Rightarrow> ('a \<Rightarrow> bool) \<Rightarrow> (error \<Rightarrow> bool) \<Rightarrow> bool" where
  "run_spec m P Q E \<longleftrightarrow>
     (\<forall>t. \<exists>new. snd (m t) = t @ new \<and> list_all P new
        \<and> (case fst (m t) of Inl e \<Rightarrow> E e | Inr a \<Rightarrow> Q a))"

section \<open>Label resolution as the specification words it\<close>

text \<open>
  The second description of label ingestion, written from the specification and
  compared below with the loop of the source. A textual label resolves to its index in
  the class schema converted to float, or is skipped when the schema does not have it; a
  numeric label (Python counts \<^verbatim>\<open>bool\<close> among the integers) is converted to
  float, a float being passed through as it is; any other type is fatal, and so is a
  conversion that fails. \<open>Fatal\<close> carries the exception.
\<close>

datatype resolution = is_Label: Label py_float | is_Skip: Skip | is_Fatal: Fatal error

definition converted :: "error + py_float \<Rightarrow> resolution" where
  "converted c = (case c of Inl e \<Rightarrow> Fatal e | Inr f \<Rightarrow> Label f)"

definition first_index :: "string list \<Rightarrow> string \<Rightarrow> nat" where
  "first_index xs x = length (takeWhile (\<lambda>y. y \<noteq> x) xs)"

definition spec_resolve :: "string list \<Rightarrow> py_value \<Rightarrow> resolution" where
  "spec_resolve schema v =
     (case v of
        PyStr s \<Rightarrow>
          if s \<in> set schema then converted (py_float_of_int (int (first_index schema s)))
          else Skip
      | PyBool b \<Rightarrow> Label (Finite (if b then 1 else 0))
      | PyInt n \<Rightarrow> converted (py_float_of_int n)
      | PyFloat x \<Rightarrow> Label x
      | PyNone \<Rightarrow>
          Fatal (ValueError (''Unrecognized label property type '' @ type_repr v))
      | PyOther _ \<Rightarrow>
          Fatal (ValueError (''Unrecognized label property type '' @ type_repr v)))"

text \<open>A row without the label column cannot be resolved at all.\<close>

definition spec_row :: "string option \<Rightarrow> string list \<Rightarrow> row \<Rightarrow> resolution" where
  "spec_row prop schema r =
     (case row_get r prop of Inl e \<Rightarrow> Fatal e | Inr v \<Rightarrow> spec_resolve schema v)"

text \<open>The valid coordinates of a file, in the order of its rows.\<close>

definition spec_coordinates :: "string option \<Rightarrow> string list \<Rightarrow> row list \<Rightarrow> labeled_coordinate list" where
  "spec_coordinates prop schema rows =
     concat (map (\<lambda>r. case spec_row prop schema r of
                         Label f \<Rightarrow> [(fst (centroid r), snd (centroid r), f)]
                       | Skip \<Rightarrow> []
                       | Fatal _ \<Rightarrow> []) rows)"

section \<open>Sample inputs\<close>

definition sample_row :: "real \<Rightarrow> real \<Rightarrow> py_value \<Rightarrow> row" where
  "sample_row x y v = \<lparr> centroid = (x, y), columns = [''Main_Damag'' \<mapsto> v] \<rparr>"

definition sample_rows :: "row list" where
  "sample_rows =
     [sample_row 1 10 (PyStr ''damaged''),
      sample_row 2 20 (PyStr ''undamaged''),
      sample_row 3 30 (PyInt 2),
      sample_row 4 40 (PyFloat (Finite (1 / 2))),
      sample_row 5 50 (PyStr ''damaged'')]"

definition sample_time :: struct_time where
  "sample_time =
     \<lparr> tm_year = 2021, tm_mon = 11, tm_mday = 5, tm_hour = 9, tm_min = 30, tm_sec = 7 \<rparr>"

text \<open>
  A world in which every collaborator succeeds: one region, two buildings, the five
  sample rows in any labels file, Python 3.8.
\<close>

definition sample_env :: env where
  "sample_env =
     \<lparr> python_version = ''3.8.10'',
       localtime = sample_time,
       read_aois = (\<lambda>_. Inr [[(0, 0), (0, 1), (1, 1)]]),
       read_buildings_file = (\<lambda>_ _. Inr [(0.5, 0.5), (0.25, 0.75)]),
       get_building_centroids_in_regions = (\<lambda>_ _. Inr [(0.5, 0.5), (0.25, 0.75)]),
       read_file = (\<lambda>_. Inr sample_rows),
       generate_examples_pipeline = (\<lambda>_. Inr ()),
       create_labeling_images = (\<lambda>_ _ dir. Inr (3, dir @ ''/import_file.csv'')),
       create_specialist_pool = (\<lambda>_ _ name _ _. Inr (''pools/'' @ name)),
       create_cloud_labeling_job = (\<lambda>_ _ _ _ _ _ _. Inr ()) \<rparr>"

definition sample_flags :: flags where
  "sample_flags =
     (default_flags ''before.tif'' ''after.tif'' ''out'')
       \<lparr> buildings_method := NoBuildings,
         labels_file := Some ''labels.geojson'',
         label_property := Some ''Main_Damag'' \<rparr>"



section \<open>Properties of the built-ins\<close>

lemma startswith_iff_append: "startswith s p \<longleftrightarrow> (\<exists>rest. s = p @ rest)"
proof
  assume "startswith s p"
  then have "s = p @ drop (length p) s"
    unfolding startswith_def by (metis append_take_drop_id)
  then show "\<exists>rest. s = p @ rest" ..
next
  assume "\<exists>rest. s = p @ rest"
  then show "startswith s p"
    unfolding startswith_def by auto
qed

lemma str_partition_first:
  assumes "sep \<notin> set k"
  shows "str_partition (k @ sep # v) sep = (k, [sep], v)"
proof -
  have all: "\<forall>c\<in>set k. c \<noteq> sep" using assms by auto
  have "takeWhile (\<lambda>c. c \<noteq> sep) (k @ sep # v) = k"
    using all by (simp add: takeWhile_tail)
  moreover have "dropWhile (\<lambda>c. c \<noteq> sep) (k @ sep # v) = sep # v"
    using all by (simp add: dropWhile_append3)
  ultimately show ?thesis by (simp add: str_partition_def)
qed

lemma bit_length_le: "m < 2 ^ k \<Longrightarrow> bit_length m \<le> k"
proof (induction k arbitrary: m)
  case 0
  then show ?case by (simp add: bit_length.simps)
next
  case (Suc k)
  show ?case
  proof (cases "m = 0")
    case True
    then show ?thesis by (simp add: bit_length.simps)
  next
    case False
    from Suc.prems have "m div 2 < 2 ^ k" by simp
    from Suc.IH [OF this] False show ?thesis by (subst bit_length.simps) simp
  qed
qed

lemma bit_length_eq: "2 ^ k \<le> m \<Longrightarrow> m < 2 ^ Suc k \<Longrightarrow> bit_length m = Suc k"
proof (induction k arbitrary: m)
  case 0
  then have "m = 1" by simp
  then show ?case by (simp add: bit_length.simps)
next
  case (Suc k)
  from Suc.prems have "2 ^ k \<le> m div 2" "m div 2 < 2 ^ Suc k" by simp_all
  from Suc.IH [OF this] have "bit_length (m div 2) = Suc k" .
  moreover from Suc.prems have "m \<noteq> 0" by auto
  ultimately show ?case by (subst bit_length.simps) simp
qed

lemma round_to_double_exact: "m < 2 ^ 53 \<Longrightarrow> round_to_double m = m"
  using bit_length_le [of m 53] by (simp add: round_to_double_def)

lemma py_float_of_int_exact:
  assumes "\<bar>n\<bar> < 2 ^ 53"
  shows "py_float_of_int n = Inr (Finite (real_of_int n))"
proof -
  from assms have m: "nat \<bar>n\<bar> < 2 ^ 53" by simp
  have lt: "(2::nat) ^ 53 < 2 ^ 1024" by simp
  have r: "round_to_double (nat \<bar>n\<bar>) = nat \<bar>n\<bar>" by (rule round_to_double_exact [OF m])
  have "\<not> 2 ^ 1024 \<le> nat \<bar>n\<bar>" using m lt by linarith
  then show ?thesis unfolding py_float_of_int_def r by (simp add: Let_def)
qed

lemma py_float_of_int_rounds:
  "py_float_of_int 9007199254740993 = Inr (Finite 9007199254740992)"
proof -
  have b: "bit_length 9007199254740993 = Suc 53"
    by (rule bit_length_eq) simp_all
  show ?thesis
    by (simp add: py_float_of_int_def round_to_double_def b Let_def)
qed

lemma py_float_of_int_overflow:
  "py_float_of_int (2 ^ 1024) = Inl (OverflowError ''int too large to convert to float'')"
proof -
  have n: "nat \<bar>2 ^ 1024 :: int\<bar> = 2 ^ 1024" by (simp add: nat_power_eq)
  have b: "bit_length (2 ^ 1024) = Suc 1024"
    by (rule bit_length_eq) simp_all
  have r: "round_to_double (2 ^ 1024) = 2 ^ 1024"
  proof -
    have e: "Suc 1024 - 53 = 972" by simp
    have q: "(2::nat) ^ 1024 div 2 ^ 972 = 2 ^ 52" by (simp add: power_diff)
    have m: "(2::nat) ^ 1024 mod 2 ^ 972 = 0" by (simp add: le_imp_power_dvd)
    have p: "(2::nat) ^ 52 * 2 ^ 972 = 2 ^ 1024" by (simp flip: power_add)
    show ?thesis
      unfolding round_to_double_def b e Let_def q m using p by simp
  qed
  show ?thesis unfolding py_float_of_int_def n r by (simp add: Let_def)
qed

section \<open>Properties of region routing\<close>

text \<open>
  C2. For every region identifier the routing function returns one of the two supported
  regions, and which one depends only on whether the identifier starts with
  \<^verbatim>\<open>europe-\<close>: with the prefix the result is \<^verbatim>\<open>europe-west4\<close>, without it
  \<^verbatim>\<open>us-central1\<close>. Both scripts route alike. \<^verbatim>\<open>europe-west1\<close> goes to Europe,
  \<^verbatim>\<open>us-east1\<close> and \<^verbatim>\<open>asia-east1\<close> go to the US.
\<close>

theorem region_routing:
  "get_labeling_dataset_region r \<in> {''europe-west4'', ''us-central1''}
   \<and> (get_labeling_dataset_region r = ''europe-west4'' \<longleftrightarrow> (\<exists>rest. r = ''europe-'' @ rest))
   \<and> (get_labeling_dataset_region r = ''us-central1'' \<longleftrightarrow> \<not> (\<exists>rest. r = ''europe-'' @ rest))
   \<and> (((\<exists>rest. r = ''europe-'' @ rest) \<longleftrightarrow> (\<exists>rest. r' = ''europe-'' @ rest))
        \<longrightarrow> get_labeling_dataset_region r = get_labeling_dataset_region r')
   \<and> task_get_labeling_dataset_region r = get_labeling_dataset_region r
   \<and> get_labeling_dataset_region ''europe-west1'' = ''europe-west4''
   \<and> get_labeling_dataset_region ''us-east1'' = ''us-central1''
   \<and> get_labeling_dataset_region ''asia-east1'' = ''us-central1''"
proof -
  have p: "\<And>s. startswith s ''europe-'' \<longleftrightarrow> (\<exists>rest. s = ''europe-'' @ rest)"
    by (rule startswith_iff_append)
  have ex: "get_labeling_dataset_region ''europe-west1'' = ''europe-west4''"
    "get_labeling_dataset_region ''us-east1'' = ''us-central1''"
    "get_labeling_dataset_region ''asia-east1'' = ''us-central1''"
    by (simp_all add: get_labeling_dataset_region_def startswith_def)
  have gen: "get_labeling_dataset_region s =
      (if (\<exists>rest. s = ''europe-'' @ rest) then ''europe-west4'' else ''us-central1'')" for s
    unfolding get_labeling_dataset_region_def p by (rule refl)
  have task: "task_get_labeling_dataset_region r = get_labeling_dataset_region r"
    by (simp add: task_get_labeling_dataset_region_def get_labeling_dataset_region_def)
  show ?thesis
    unfolding gen [of r] gen [of r'] gen [of "''europe-west1''"] gen [of "''us-east1''"]
      gen [of "''asia-east1''"] task
    using ex [unfolded gen] by (simp del: append.simps)
qed

theorem region_routing_witness:
  "((\<exists>rest. ''us-east1'' = ''europe-'' @ rest) \<longleftrightarrow> (\<exists>rest. ''asia-east1'' = ''europe-'' @ rest))
   \<and> get_labeling_dataset_region ''us-east1'' = get_labeling_dataset_region ''asia-east1''
   \<and> get_labeling_dataset_region ''us-east1'' = ''us-central1''"
  using region_routing [of "''us-east1''" "''asia-east1''"] by simp

section \<open>Properties of the raster-I/O environment\<close>

lemma str_partition_found:
  assumes "sep \<in> set s" and "str_partition s sep = (var, m, val)"
  shows "s = var @ sep # val \<and> sep \<notin> set var"
proof -
  let ?P = "\<lambda>c. c \<noteq> sep"
  have var: "var = takeWhile ?P s" and val: "val = tl (dropWhile ?P s)"
    using assms by (simp_all add: str_partition_def)
  have ne: "dropWhile ?P s \<noteq> []" using assms(1) by (simp add: dropWhile_eq_Nil_conv)
  then have "hd (dropWhile ?P s) = sep" using hd_dropWhile [of ?P s] by simp
  then have "dropWhile ?P s = sep # val" using ne val by (cases "dropWhile ?P s") auto
  then have "s = var @ sep # val" using takeWhile_dropWhile_id [of ?P s] var by simp
  moreover have "sep \<notin> set var" using var by (auto dest: set_takeWhileD)
  ultimately show ?thesis by simp
qed

lemma gdal_env_loop_error_iff:
  "(\<exists>e. gdal_env_loop ss acc = Inl e) \<longleftrightarrow> (\<exists>s\<in>set ss. CHR ''='' \<notin> set s)"
  by (induction ss arbitrary: acc) (auto split: prod.splits)

lemma gdal_env_loop_error_value:
  "gdal_env_loop ss acc = Inl e \<Longrightarrow> e = ValueError gdal_env_message"
  by (induction ss arbitrary: acc) (auto split: prod.splits if_splits)

lemma gdal_env_loop_other_keys:
  assumes "gdal_env_loop ss acc = Inr m"
    and "\<forall>s\<in>set ss. \<forall>w. s \<noteq> k @ CHR ''='' # w"
  shows "m k = acc k"
  using assms
proof (induction ss arbitrary: acc)
  case Nil
  then show ?case by simp
next
  case (Cons s ss)
  from Cons.prems(1) have has: "CHR ''='' \<in> set s"
    by (auto split: if_splits)
  obtain var sp val where part: "str_partition s CHR ''='' = (var, sp, val)"
    by (cases "str_partition s CHR ''=''") auto
  from str_partition_found [OF has part] have s: "s = var @ CHR ''='' # val" by simp
  with Cons.prems(2) have "var \<noteq> k" by auto
  moreover from Cons.prems(1) has part
  have "gdal_env_loop ss (acc(var \<mapsto> val)) = Inr m" by simp
  then have "m k = (acc(var \<mapsto> val)) k"
    using Cons.IH Cons.prems(2) by simp
  ultimately show ?case by simp
qed

lemma gdal_env_loop_last_wins:
  assumes "gdal_env_loop (xs @ (k @ CHR ''='' # v) # ys) acc = Inr m"
    and "CHR ''='' \<notin> set k"
    and "\<forall>s\<in>set ys. \<forall>w. s \<noteq> k @ CHR ''='' # w"
  shows "m k = Some v"
  using assms(1)
proof (induction xs arbitrary: acc)
  case Nil
  then have "gdal_env_loop ys (acc(k \<mapsto> v)) = Inr m"
    using assms(2) by (simp add: str_partition_first)
  from gdal_env_loop_other_keys [OF this assms(3)] show ?case by simp
next
  case (Cons x xs)
  then show ?case by (auto split: if_splits prod.splits)
qed

lemma gdal_env_loop_dom:
  "gdal_env_loop ss acc = Inr m \<Longrightarrow>
   dom m = dom acc \<union> {k. CHR ''='' \<notin> set k \<and> (\<exists>v. k @ CHR ''='' # v \<in> set ss)}"
proof (induction ss arbitrary: acc)
  case Nil
  then show ?case by simp
next
  case (Cons s ss)
  from Cons.prems(1) have has: "CHR ''='' \<in> set s"
    by (auto split: if_splits)
  obtain var sp val where part: "str_partition s CHR ''='' = (var, sp, val)"
    by (cases "str_partition s CHR ''=''") auto
  from str_partition_found [OF has part]
  have s: "s = var @ CHR ''='' # val" and nv: "CHR ''='' \<notin> set var" by simp_all
  have key: "CHR ''='' \<notin> set k \<Longrightarrow> (\<exists>v. k @ CHR ''='' # v = s) \<longleftrightarrow> k = var" for k
  proof
    assume k: "CHR ''='' \<notin> set k" and "\<exists>v. k @ CHR ''='' # v = s"
    then obtain v where "k @ CHR ''='' # v = var @ CHR ''='' # val" using s by auto
    then have "str_partition (k @ CHR ''='' # v) CHR ''='' = str_partition (var @ CHR ''='' # val) CHR ''=''"
      by simp
    then show "k = var" using k nv by (simp add: str_partition_first)
  next
    assume "k = var" then show "\<exists>v. k @ CHR ''='' # v = s" using s by auto
  qed
  from Cons.prems(1) has part
  have rec: "gdal_env_loop ss (acc(var \<mapsto> val)) = Inr m" by simp
  have ih: "dom m = dom (acc(var \<mapsto> val))
      \<union> {k. CHR ''='' \<notin> set k \<and> (\<exists>v. k @ CHR ''='' # v \<in> set ss)}"
    by (rule Cons.IH [OF rec])
  have d1: "dom (acc(var \<mapsto> val)) = insert var (dom acc)"
    by simp
  have k1: "{k. CHR ''='' \<notin> set k \<and> (\<exists>v. k @ CHR ''='' # v \<in> set (s # ss))}
      = {k. CHR ''='' \<notin> set k \<and> (\<exists>v. k @ CHR ''='' # v = s)}
        \<union> {k. CHR ''='' \<notin> set k \<and> (\<exists>v. k @ CHR ''='' # v \<in> set ss)}"
    by auto
  have k2: "{k. CHR ''='' \<notin> set k \<and> (\<exists>v. k @ CHR ''='' # v = s)} = {var}"
    using key nv by blast
  show ?case unfolding ih d1 k1 k2 by blast
qed

text \<open>
  C6 (amended). Parsing the raster-I/O environment list fails, with the
  \<open>ValueError\<close> of the source, exactly when some entry has no \<^verbatim>\<open>=\<close>. Otherwise
  every entry \<^verbatim>\<open>key=value\<close> (split at its first \<^verbatim>\<open>=\<close>) binds its key in
  the resulting mapping, a later entry replacing an earlier one with the same key: the
  key is bound to the value of the last entry with that key, and the keys of the mapping
  are exactly the keys of the entries. The list
  \<^verbatim>\<open>["GDAL_CACHEMAX=512","FOO=bar"]\<close> gives the mapping of the two pairs, and
  \<^verbatim>\<open>["BAD"]\<close> raises.
\<close>

theorem gdal_env_parsing:
  "((\<exists>e. get_gdal_env F = Inl e) \<longleftrightarrow> (\<exists>s\<in>set (gdal_env F). CHR ''='' \<notin> set s))
   \<and> (\<forall>e. get_gdal_env F = Inl e \<longrightarrow> e = ValueError gdal_env_message)
   \<and> (\<forall>m xs k v ys.
        get_gdal_env F = Inr m \<and> gdal_env F = xs @ (k @ ''='' @ v) # ys
        \<and> CHR ''='' \<notin> set k \<and> (\<forall>s\<in>set ys. \<forall>w. s \<noteq> k @ ''='' @ w)
        \<longrightarrow> m k = Some v)
   \<and> (\<forall>m. get_gdal_env F = Inr m \<longrightarrow>
        dom m = {k. CHR ''='' \<notin> set k \<and> (\<exists>v. k @ ''='' @ v \<in> set (gdal_env F))})
   \<and> get_gdal_env (F\<lparr>gdal_env := [''GDAL_CACHEMAX=512'', ''FOO=bar'']\<rparr>)
       = Inr [''GDAL_CACHEMAX'' \<mapsto> ''512'', ''FOO'' \<mapsto> ''bar'']
   \<and> get_gdal_env (F\<lparr>gdal_env := [''BAD'']\<rparr>) = Inl (ValueError gdal_env_message)"
proof -
  have a: "(\<exists>e. get_gdal_env F = Inl e) \<longleftrightarrow> (\<exists>s\<in>set (gdal_env F). CHR ''='' \<notin> set s)"
    unfolding get_gdal_env_def by (rule gdal_env_loop_error_iff)
  have b: "\<forall>e. get_gdal_env F = Inl e \<longrightarrow> e = ValueError gdal_env_message"
    unfolding get_gdal_env_def by (blast dest: gdal_env_loop_error_value)
  have c: "\<forall>m xs k v ys.
        get_gdal_env F = Inr m \<and> gdal_env F = xs @ (k @ ''='' @ v) # ys
        \<and> CHR ''='' \<notin> set k \<and> (\<forall>s\<in>set ys. \<forall>w. s \<noteq> k @ ''='' @ w)
        \<longrightarrow> m k = Some v"
  proof (intro allI impI, elim conjE)
    fix m xs k v ys
    assume m: "get_gdal_env F = Inr m" and eq: "gdal_env F = xs @ (k @ ''='' @ v) # ys"
      and k: "CHR ''='' \<notin> set k" and later: "\<forall>s\<in>set ys. \<forall>w. s \<noteq> k @ ''='' @ w"
    from m eq have 1: "gdal_env_loop (xs @ (k @ CHR ''='' # v) # ys) Map.empty = Inr m"
      by (simp add: get_gdal_env_def)
    from later have 2: "\<forall>s\<in>set ys. \<forall>w. s \<noteq> k @ CHR ''='' # w" by simp
    show "m k = Some v" by (rule gdal_env_loop_last_wins [OF 1 k 2])
  qed
  have d: "\<forall>m. get_gdal_env F = Inr m \<longrightarrow>
        dom m = {k. CHR ''='' \<notin> set k \<and> (\<exists>v. k @ ''='' @ v \<in> set (gdal_env F))}"
  proof (intro allI impI)
    fix m assume "get_gdal_env F = Inr m"
    then have "gdal_env_loop (gdal_env F) Map.empty = Inr m" by (simp add: get_gdal_env_def)
    from gdal_env_loop_dom [OF this] show
      "dom m = {k. CHR ''='' \<notin> set k \<and> (\<exists>v. k @ ''='' @ v \<in> set (gdal_env F))}"
      by simp
  qed
  have e: "get_gdal_env (F\<lparr>gdal_env := [''GDAL_CACHEMAX=512'', ''FOO=bar'']\<rparr>)
       = Inr [''GDAL_CACHEMAX'' \<mapsto> ''512'', ''FOO'' \<mapsto> ''bar'']"
    by (simp add: get_gdal_env_def str_partition_def)
  have f: "get_gdal_env (F\<lparr>gdal_env := [''BAD'']\<rparr>) = Inl (ValueError gdal_env_message)"
    by (simp add: get_gdal_env_def)
  from a b c d e f show ?thesis by blast
qed

theorem gdal_env_parsing_witness:
  "(\<exists>m. get_gdal_env (default_flags ''b'' ''a'' ''o'' \<lparr>gdal_env := [''A=1'', ''FOO=bar'', ''A=2'']\<rparr>) = Inr m
      \<and> m ''A'' = Some ''2'' \<and> m ''FOO'' = Some ''bar'' \<and> dom m = {''A'', ''FOO''})
   \<and> CHR ''='' \<in> set ''A=1'' \<and> CHR ''='' \<in> set ''FOO=bar'' \<and> CHR ''='' \<in> set ''A=2''"
proof -
  let ?F = "default_flags ''b'' ''a'' ''o'' \<lparr>gdal_env := [''A=1'', ''FOO=bar'', ''A=2'']\<rparr>"
  note t = gdal_env_parsing [of ?F]
  note t1 = t [THEN conjunct1]
  note t3 = t [THEN conjunct2, THEN conjunct2, THEN conjunct1, rule_format]
  note t4 = t [THEN conjunct2, THEN conjunct2, THEN conjunct2, THEN conjunct1, rule_format]
  have ge: "gdal_env ?F = [''A=1'', ''FOO=bar'', ''A=2'']" by simp
  have ok: "\<forall>s\<in>set [''A=1'', ''FOO=bar'', ''A=2'']. CHR ''='' \<in> set s" by simp
  with t1 have "\<not> (\<exists>e. get_gdal_env ?F = Inl e)" unfolding ge by blast
  then obtain m where m: "get_gdal_env ?F = Inr m" by (cases "get_gdal_env ?F") auto
  have 1: "m ''A'' = Some ''2''"
    by (rule t3 [of m "[''A=1'', ''FOO=bar'']" "''A''" "''2''" "[]"]) (simp add: m)
  have 2: "m ''FOO'' = Some ''bar''"
    by (rule t3 [of m "[''A=1'']" "''FOO''" "''bar''" "[''A=2'']"]) (simp add: m)
  have "dom m = {k. CHR ''='' \<notin> set k \<and> (\<exists>v. k @ ''='' @ v \<in> set (gdal_env ?F))}"
    by (rule t4 [OF m])
  also have "\<dots> = {''A'', ''FOO''}"
  proof -
    have "CHR ''='' \<notin> set k \<Longrightarrow> (\<exists>v. k @ ''='' @ v \<in> set (gdal_env ?F)) \<longleftrightarrow> k \<in> {''A'', ''FOO''}" for k
    proof
      assume k: "CHR ''='' \<notin> set k" and "\<exists>v. k @ ''='' @ v \<in> set (gdal_env ?F)"
      then obtain v where "k @ CHR ''='' # v \<in> {''A'' @ CHR ''='' # ''1'', ''FOO'' @ CHR ''='' # ''bar'', ''A'' @ CHR ''='' # ''2''}"
        unfolding ge by auto
      then consider "k @ CHR ''='' # v = ''A'' @ CHR ''='' # ''1''"
        | "k @ CHR ''='' # v = ''FOO'' @ CHR ''='' # ''bar''"
        | "k @ CHR ''='' # v = ''A'' @ CHR ''='' # ''2''" by blast
      then show "k \<in> {''A'', ''FOO''}"
      proof cases
        case 1
        then have "str_partition (k @ CHR ''='' # v) CHR ''='' = str_partition (''A'' @ CHR ''='' # ''1'') CHR ''=''" by (simp only:)
        then show ?thesis using k by (simp add: str_partition_first del: append.simps)
      next
        case 2
        then have "str_partition (k @ CHR ''='' # v) CHR ''='' = str_partition (''FOO'' @ CHR ''='' # ''bar'') CHR ''=''" by (simp only:)
        then show ?thesis using k by (simp add: str_partition_first del: append.simps)
      next
        case 3
        then have "str_partition (k @ CHR ''='' # v) CHR ''='' = str_partition (''A'' @ CHR ''='' # ''2'') CHR ''=''" by (simp only:)
        then show ?thesis using k by (simp add: str_partition_first del: append.simps)
      qed
    next
      assume "k \<in> {''A'', ''FOO''}"
      then show "\<exists>v. k @ ''='' @ v \<in> set (gdal_env ?F)" unfolding ge by auto
    qed
    moreover have "CHR ''='' \<notin> set ''A''" "CHR ''='' \<notin> set ''FOO''" by simp_all
    ultimately show ?thesis by blast
  qed
  finally have 3: "dom m = {''A'', ''FOO''}" .
  have 4: "CHR ''='' \<in> set ''A=1'' \<and> CHR ''='' \<in> set ''FOO=bar'' \<and> CHR ''='' \<in> set ''A=2''"
    by simp
  from m 1 2 3 4 show ?thesis by blast
qed

text \<open>
  The claim C6 as first stated gives each entry a pair in the resulting mapping. For
  \<^verbatim>\<open>["A=1","A=2"]\<close> the second assignment overwrites the first: the mapping
  is \<^verbatim>\<open>{"A": "2"}\<close> and the entry \<^verbatim>\<open>A=1\<close> has no pair in it.
\<close>

theorem gdal_env_duplicate_key_counterexample:
  "get_gdal_env (sample_flags\<lparr>gdal_env := [''A=1'', ''A=2'']\<rparr>) = Inr [''A'' \<mapsto> ''2'']
   \<and> [''A'' \<mapsto> ''2''] ''A'' \<noteq> Some ''1''"
  by (simp add: get_gdal_env_def str_partition_def)

section \<open>Properties of label ingestion\<close>

lemma first_index_props:
  "s \<in> set xs \<Longrightarrow>
   first_index xs s < length xs \<and> xs ! first_index xs s = s
   \<and> (\<forall>j<first_index xs s. xs ! j \<noteq> s)"
proof (induction xs)
  case Nil
  then show ?case by simp
next
  case (Cons x xs)
  show ?case
  proof (cases "x = s")
    case True
    then show ?thesis by (simp add: first_index_def)
  next
    case False
    with Cons.prems have "s \<in> set xs" by simp
    from Cons.IH [OF this] False show ?thesis
      by (auto simp: first_index_def nth_Cons split: nat.splits)
  qed
qed

lemma list_index_found: "s \<in> set xs \<Longrightarrow> list_index xs s = Inr (first_index xs s)"
  by (induction xs) (auto simp: first_index_def)

lemma list_index_absent: "s \<notin> set xs \<Longrightarrow> list_index xs s = Inl (ValueError (s @ '' is not in list''))"
  by (induction xs) auto

lemma read_labels_loop_step:
  "read_labels_loop prop cn (r # rest) acc =
     (case spec_row prop cn r of
        Label f \<Rightarrow> read_labels_loop prop cn rest (acc @ [(fst (centroid r), snd (centroid r), f)])
      | Skip \<Rightarrow> read_labels_loop prop cn rest acc
      | Fatal e \<Rightarrow> Inl e)"
  by (auto simp: spec_row_def spec_resolve_def converted_def list_index_found list_index_absent
      split: sum.splits py_value.splits)

lemma read_labels_loop_valid:
  "\<forall>r\<in>set rows. \<not> is_Fatal (spec_row prop cn r) \<Longrightarrow>
   read_labels_loop prop cn rows acc = Inr (acc @ spec_coordinates prop cn rows)"
proof (induction rows arbitrary: acc)
  case Nil
  then show ?case by (simp add: spec_coordinates_def)
next
  case (Cons r rows)
  then have r: "\<not> is_Fatal (spec_row prop cn r)"
    and rest: "\<forall>r\<in>set rows. \<not> is_Fatal (spec_row prop cn r)"
    by simp_all
  note ih = Cons.IH [OF rest]
  show ?case
    using r unfolding read_labels_loop_step
    by (cases "spec_row prop cn r") (simp_all add: ih spec_coordinates_def)
qed

lemma read_labels_loop_fatal:
  assumes "\<forall>p\<in>set pre. \<not> is_Fatal (spec_row prop cn p)"
    and "spec_row prop cn r = Fatal e"
  shows "read_labels_loop prop cn (pre @ r # post) acc = Inl e"
  using assms(1)
proof (induction pre arbitrary: acc)
  case Nil
  show ?case using assms(2) by (simp add: read_labels_loop_step del: read_labels_loop.simps)
next
  case (Cons p pre)
  then have p: "\<not> is_Fatal (spec_row prop cn p)"
    and rest: "\<forall>p\<in>set pre. \<not> is_Fatal (spec_row prop cn p)"
    by simp_all
  note ih = Cons.IH [OF rest]
  show ?case
    using p unfolding append_Cons read_labels_loop_step
    by (cases "spec_row prop cn p") (simp_all add: ih)
qed

lemma py_float_of_int_small [simp]:
  "py_float_of_int 0 = Inr (Finite 0)" "py_float_of_int 1 = Inr (Finite 1)"
  "py_float_of_int 2 = Inr (Finite 2)" "py_float_of_int (int (Suc 0)) = Inr (Finite 1)"
  by (simp_all add: py_float_of_int_exact)

lemma spec_resolve_index:
  assumes "s \<in> set cn" and "length cn < 2 ^ 53"
  shows "spec_resolve cn (PyStr s) = Label (Finite (real (first_index cn s)))"
proof -
  have "first_index cn s \<le> length cn"
    unfolding first_index_def by (rule length_takeWhile_le)
  with assms(2) have "\<bar>int (first_index cn s)\<bar> < 2 ^ 53" by simp
  from py_float_of_int_exact [OF this] assms(1) show ?thesis
    by (simp add: spec_resolve_def converted_def)
qed

lemma andthen_returns: "andthen (returns a) f t = f a t"
  by (simp add: andthen_def returns_def)

lemma andthen_raise: "andthen (raise e) f t = (Inl e, t)"
  by (simp add: andthen_def raise_def)

lemma andthen_lift: "andthen (lift r) f t = (case r of Inl e \<Rightarrow> (Inl e, t) | Inr a \<Rightarrow> f a t)"
  by (simp add: andthen_def lift_def split: sum.splits)

lemma andthen_call:
  "andthen (call ev r) f t =
     (case r of Inl msg \<Rightarrow> (Inl (CollaboratorError msg), t @ [ev]) | Inr a \<Rightarrow> f a (t @ [ev]))"
  by (simp add: andthen_def call_def split: sum.splits)

lemma read_labels_file_run:
  assumes "read_file w path = Inr rows"
  shows "read_labels_file F w path prop cn t =
     (case read_labels_loop prop cn rows [] of
        Inl e \<Rightarrow> Inl e
      | Inr cs \<Rightarrow>
          Inr (case num_keep_labeled_examples F of
                 None \<Rightarrow> cs
               | Some n \<Rightarrow> if n \<noteq> 0 then slice_to cs n else cs),
      t @ [ReadFile path])"
  using assms
  by (simp add: read_labels_file_def andthen_call andthen_lift returns_def split: sum.splits)

lemma sample_coordinates:
  "spec_coordinates (Some ''Main_Damag'') [''undamaged'', ''damaged''] sample_rows =
     [(1, 10, Finite 1), (2, 20, Finite 0), (3, 30, Finite 2), (4, 40, Finite (1 / 2)), (5, 50, Finite 1)]"
  by (simp add: spec_coordinates_def spec_row_def spec_resolve_def converted_def row_get_def
      sample_rows_def sample_row_def first_index_def)

lemma sample_rows_valid:
  "\<forall>r\<in>set sample_rows. \<not> is_Fatal (spec_row (Some ''Main_Damag'') [''undamaged'', ''damaged''] r)"
  by (simp add: spec_row_def spec_resolve_def converted_def row_get_def sample_rows_def
      sample_row_def first_index_def)

lemma slice_to_prefix: "\<exists>rest. xs = slice_to xs n @ rest"
  unfolding slice_to_def by (metis append_take_drop_id)

text \<open>
  C1 (amended). Label ingestion resolves the label of each row as the specification
  says. When no row is fatal, the loop returns the coordinates of the rows whose label
  resolves, in file order: a textual label gets the index of its first (exact,
  case-sensitive) occurrence in the class schema converted to float, a textual label
  absent from the schema drops its row without an error, a numeric label is converted
  with \<^verbatim>\<open>float\<close>. That conversion leaves a float as it is and gives an integer of
  magnitude below \<open>2 ^ 53\<close> the float of the same value; a larger integer is rounded
  (\<open>2 ^ 53 + 1\<close> gives 9007199254740992.0), and one too large for a float
  (\<open>2 ^ 1024\<close>) raises \<open>OverflowError\<close>. The first row that is fatal, by a label of
  another type with the \<open>ValueError\<close> of the source or by a failed conversion, ends the
  loop and the whole ingestion with its exception. For the schema
  \<^verbatim>\<open>["undamaged","damaged"]\<close>: \<^verbatim>\<open>"damaged"\<close> gives 1.0,
  \<^verbatim>\<open>"destroyed"\<close> and \<^verbatim>\<open>"Damaged"\<close> give no row, the number 2 gives 2.0,
  and \<^verbatim>\<open>None\<close> raises.
\<close>

theorem label_resolution:
  "((\<forall>r\<in>set rows. \<not> is_Fatal (spec_row prop cn r)) \<longrightarrow>
      read_labels_loop prop cn rows [] = Inr (spec_coordinates prop cn rows))
   \<and> (\<forall>pre r post e.
        rows = pre @ r # post \<and> (\<forall>p\<in>set pre. \<not> is_Fatal (spec_row prop cn p))
        \<and> spec_row prop cn r = Fatal e
        \<longrightarrow> read_labels_loop prop cn rows [] = Inl e
            \<and> (read_file w path = Inr rows \<longrightarrow>
                 read_labels_file F w path prop cn t = (Inl e, t @ [ReadFile path])))
   \<and> (\<forall>s. s \<in> set cn \<longrightarrow>
        first_index cn s < length cn \<and> cn ! first_index cn s = s
        \<and> (\<forall>j<first_index cn s. cn ! j \<noteq> s))
   \<and> (\<forall>s. s \<in> set cn \<and> length cn < 2 ^ 53 \<longrightarrow>
        spec_resolve cn (PyStr s) = Label (Finite (real (first_index cn s))))
   \<and> (\<forall>n. \<bar>n\<bar> < 2 ^ 53 \<longrightarrow> spec_resolve cn (PyInt n) = Label (Finite (real_of_int n)))
   \<and> (\<forall>x. spec_resolve cn (PyFloat x) = Label x)
   \<and> spec_resolve cn (PyInt 9007199254740993) = Label (Finite 9007199254740992)
   \<and> spec_resolve cn (PyInt (2 ^ 1024))
       = Fatal (OverflowError ''int too large to convert to float'')
   \<and> read_labels_loop (Some c) [''undamaged'', ''damaged'']
        [\<lparr>centroid = (x, y), columns = [c \<mapsto> PyStr ''damaged'']\<rparr>] []
       = Inr [(x, y, Finite 1)]
   \<and> read_labels_loop (Some c) [''undamaged'', ''damaged'']
        [\<lparr>centroid = (x, y), columns = [c \<mapsto> PyStr ''destroyed'']\<rparr>] [] = Inr []
   \<and> read_labels_loop (Some c) [''undamaged'', ''damaged'']
        [\<lparr>centroid = (x, y), columns = [c \<mapsto> PyStr ''Damaged'']\<rparr>] [] = Inr []
   \<and> read_labels_loop (Some c) [''undamaged'', ''damaged'']
        [\<lparr>centroid = (x, y), columns = [c \<mapsto> PyInt 2]\<rparr>] [] = Inr [(x, y, Finite 2)]
   \<and> read_labels_loop (Some c) [''undamaged'', ''damaged'']
        [\<lparr>centroid = (x, y), columns = [c \<mapsto> PyNone]\<rparr>] []
       = Inl (ValueError ''Unrecognized label property type <class 'NoneType'>'')"
proof -
  have a: "(\<forall>r\<in>set rows. \<not> is_Fatal (spec_row prop cn r)) \<longrightarrow>
      read_labels_loop prop cn rows [] = Inr (spec_coordinates prop cn rows)"
    using read_labels_loop_valid [of rows "prop" cn "[]"] by simp
  have b: "\<forall>pre r post e.
        rows = pre @ r # post \<and> (\<forall>p\<in>set pre. \<not> is_Fatal (spec_row prop cn p))
        \<and> spec_row prop cn r = Fatal e
        \<longrightarrow> read_labels_loop prop cn rows [] = Inl e
            \<and> (read_file w path = Inr rows \<longrightarrow>
                 read_labels_file F w path prop cn t = (Inl e, t @ [ReadFile path]))"
  proof (intro allI impI, elim conjE)
    fix pre r post e
    assume rows: "rows = pre @ r # post"
      and pre: "\<forall>p\<in>set pre. \<not> is_Fatal (spec_row prop cn p)"
      and f: "spec_row prop cn r = Fatal e"
    have l: "read_labels_loop prop cn rows [] = Inl e"
      unfolding rows by (rule read_labels_loop_fatal [OF pre f])
    moreover have "read_file w path = Inr rows \<longrightarrow>
        read_labels_file F w path prop cn t = (Inl e, t @ [ReadFile path])"
      by (simp add: read_labels_file_run l)
    ultimately show "read_labels_loop prop cn rows [] = Inl e
      \<and> (read_file w path = Inr rows \<longrightarrow>
           read_labels_file F w path prop cn t = (Inl e, t @ [ReadFile path]))"
      by (rule conjI)
  qed
  have c: "\<forall>s. s \<in> set cn \<longrightarrow>
        first_index cn s < length cn \<and> cn ! first_index cn s = s
        \<and> (\<forall>j<first_index cn s. cn ! j \<noteq> s)"
    using first_index_props by blast
  have c2: "\<forall>s. s \<in> set cn \<and> length cn < 2 ^ 53 \<longrightarrow>
        spec_resolve cn (PyStr s) = Label (Finite (real (first_index cn s)))"
    using spec_resolve_index by blast
  have c3: "\<forall>n. \<bar>n\<bar> < 2 ^ 53 \<longrightarrow> spec_resolve cn (PyInt n) = Label (Finite (real_of_int n))"
    by (simp add: spec_resolve_def converted_def py_float_of_int_exact)
  have c4: "\<forall>x. spec_resolve cn (PyFloat x) = Label x"
    by (simp add: spec_resolve_def)
  have c5: "spec_resolve cn (PyInt 9007199254740993) = Label (Finite 9007199254740992)"
    by (simp add: spec_resolve_def converted_def py_float_of_int_rounds)
  have c6: "spec_resolve cn (PyInt (2 ^ 1024))
       = Fatal (OverflowError ''int too large to convert to float'')"
    by (simp only: spec_resolve_def converted_def py_float_of_int_overflow py_value.case
        sum.case)
  have d: "read_labels_loop (Some c) [''undamaged'', ''damaged'']
        [\<lparr>centroid = (x, y), columns = [c \<mapsto> PyStr ''damaged'']\<rparr>] []
       = Inr [(x, y, Finite 1)]"
    by (simp add: row_get_def)
  have e: "read_labels_loop (Some c) [''undamaged'', ''damaged'']
        [\<lparr>centroid = (x, y), columns = [c \<mapsto> PyStr ''destroyed'']\<rparr>] [] = Inr []"
    by (simp add: row_get_def)
  have f: "read_labels_loop (Some c) [''undamaged'', ''damaged'']
        [\<lparr>centroid = (x, y), columns = [c \<mapsto> PyStr ''Damaged'']\<rparr>] [] = Inr []"
    by (simp add: row_get_def)
  have g: "read_labels_loop (Some c) [''undamaged'', ''damaged'']
        [\<lparr>centroid = (x, y), columns = [c \<mapsto> PyInt 2]\<rparr>] [] = Inr [(x, y, Finite 2)]"
    by (simp add: row_get_def)
  have h: "read_labels_loop (Some c) [''undamaged'', ''damaged'']
        [\<lparr>centroid = (x, y), columns = [c \<mapsto> PyNone]\<rparr>] []
       = Inl (ValueError ''Unrecognized label property type <class 'NoneType'>'')"
    by (simp add: row_get_def type_repr_def)
  show ?thesis
    apply (rule conjI, rule a)
    apply (rule conjI, rule b)
    apply (rule conjI, rule c)
    apply (rule conjI, rule c2)
    apply (rule conjI, rule c3)
    apply (rule conjI, rule c4)
    apply (rule conjI, rule c5)
    apply (rule conjI, rule c6)
    apply (rule conjI, rule d)
    apply (rule conjI, rule e)
    apply (rule conjI, rule f)
    apply (rule conjI, rule g)
    apply (rule h)
    done
qed

theorem label_resolution_witness:
  "list_all (\<lambda>r. \<not> is_Fatal (spec_row (Some ''Main_Damag'') [''undamaged'', ''damaged''] r)) sample_rows
   \<and> read_labels_loop (Some ''Main_Damag'') [''undamaged'', ''damaged''] sample_rows []
       = Inr [(1, 10, Finite 1), (2, 20, Finite 0), (3, 30, Finite 2), (4, 40, Finite (1 / 2)), (5, 50, Finite 1)]"
  using label_resolution [of sample_rows "Some ''Main_Damag''" "[''undamaged'', ''damaged'']",
      THEN conjunct1]
    sample_rows_valid sample_coordinates
  by (auto simp: list_all_iff)

text \<open>
  The claim C1 as first stated passes every numeric label through as a float. An
  integer label converted by \<^verbatim>\<open>float\<close> does not always keep its value, and need not
  give a float at all: \<open>2 ^ 53 + 1\<close> becomes 9007199254740992.0, and \<open>2 ^ 1024\<close> raises
  \<open>OverflowError\<close>, which aborts the ingestion.
\<close>

theorem label_int_conversion_counterexample:
  "read_labels_loop (Some ''Main_Damag'') [''undamaged'', ''damaged'']
      [sample_row 1 10 (PyInt 9007199254740993)] []
     = Inr [(1, 10, Finite 9007199254740992)]
   \<and> (9007199254740992 :: real) \<noteq> real_of_int 9007199254740993
   \<and> read_labels_loop (Some ''Main_Damag'') [''undamaged'', ''damaged'']
      [sample_row 1 10 (PyInt (2 ^ 1024))] []
     = Inl (OverflowError ''int too large to convert to float'')"
proof -
  have a: "read_labels_loop (Some ''Main_Damag'') [''undamaged'', ''damaged'']
      [sample_row 1 10 (PyInt 9007199254740993)] []
     = Inr [(1, 10, Finite 9007199254740992)]"
    by (simp add: row_get_def sample_row_def py_float_of_int_rounds)
  have b: "(9007199254740992 :: real) \<noteq> real_of_int 9007199254740993" by simp
  have g: "row_get (sample_row 1 10 (PyInt (2 ^ 1024))) (Some ''Main_Damag'')
      = Inr (PyInt (2 ^ 1024))"
    by (simp add: row_get_def sample_row_def)
  have c: "read_labels_loop (Some ''Main_Damag'') [''undamaged'', ''damaged'']
      [sample_row 1 10 (PyInt (2 ^ 1024))] []
     = Inl (OverflowError ''int too large to convert to float'')"
    by (simp only: read_labels_loop.simps g py_float_of_int_overflow sum.case py_value.case)
  from a b c show ?thesis by (intro conjI)
qed

text \<open>
  C7 (amended). When label ingestion succeeds, its output is a prefix of the valid
  coordinates in file order. With a positive keep-count \<open>N\<close> it is exactly their first
  \<open>N\<close> (all of them when there are fewer); with the keep-count 0 or unset it is all of
  them.
\<close>

theorem keep_count_truncation:
  assumes "read_file w path = Inr rows" and "\<forall>r\<in>set rows. \<not> is_Fatal (spec_row prop cn r)"
  shows "\<exists>out. read_labels_file F w path prop cn t = (Inr out, t @ [ReadFile path])
     \<and> (\<exists>rest. spec_coordinates prop cn rows = out @ rest)
     \<and> (\<forall>n. num_keep_labeled_examples F = Some n \<and> 0 < n
           \<longrightarrow> out = take (nat n) (spec_coordinates prop cn rows))
     \<and> (num_keep_labeled_examples F = None \<or> num_keep_labeled_examples F = Some 0
           \<longrightarrow> out = spec_coordinates prop cn rows)"
proof -
  let ?cs = "spec_coordinates prop cn rows"
  let ?out = "case num_keep_labeled_examples F of
                 None \<Rightarrow> ?cs
               | Some n \<Rightarrow> if n \<noteq> 0 then slice_to ?cs n else ?cs"
  have loop: "read_labels_loop prop cn rows [] = Inr ?cs"
    using read_labels_loop_valid [OF assms(2), of "[]"] by simp
  have run: "read_labels_file F w path prop cn t = (Inr ?out, t @ [ReadFile path])"
    by (simp add: read_labels_file_run [OF assms(1)] loop)
  have pre: "\<exists>rest. ?cs = ?out @ rest"
  proof (cases "num_keep_labeled_examples F")
    case None
    then show ?thesis by simp
  next
    case (Some n)
    show ?thesis
    proof (cases "n = 0")
      case True
      with Some show ?thesis by simp
    next
      case False
      with Some show ?thesis using slice_to_prefix [of ?cs n] by simp
    qed
  qed
  have pos: "\<forall>n. num_keep_labeled_examples F = Some n \<and> 0 < n \<longrightarrow> ?out = take (nat n) ?cs"
    by (auto simp: slice_to_def)
  have all: "num_keep_labeled_examples F = None \<or> num_keep_labeled_examples F = Some 0 \<longrightarrow> ?out = ?cs"
    by auto
  show ?thesis
  proof (rule exI [of _ ?out], intro conjI)
    show "read_labels_file F w path prop cn t = (Inr ?out, t @ [ReadFile path])" by (rule run)
    show "\<exists>rest. ?cs = ?out @ rest" by (rule pre)
    show "\<forall>n. num_keep_labeled_examples F = Some n \<and> 0 < n \<longrightarrow> ?out = take (nat n) ?cs"
      by (rule pos)
    show "num_keep_labeled_examples F = None \<or> num_keep_labeled_examples F = Some 0 \<longrightarrow> ?out = ?cs"
      by (rule all)
  qed
qed

theorem keep_count_truncation_witness:
  "read_file sample_env ''labels.geojson'' = Inr sample_rows
   \<and> list_all (\<lambda>r. \<not> is_Fatal (spec_row (Some ''Main_Damag'') [''undamaged'', ''damaged''] r)) sample_rows
   \<and> read_labels_file (sample_flags\<lparr>num_keep_labeled_examples := Some 2\<rparr>) sample_env
        ''labels.geojson'' (Some ''Main_Damag'') [''undamaged'', ''damaged''] []
       = (Inr [(1, 10, Finite 1), (2, 20, Finite 0)], [ReadFile ''labels.geojson''])"
proof -
  let ?F = "sample_flags\<lparr>num_keep_labeled_examples := Some 2\<rparr>"
  have rf: "read_file sample_env ''labels.geojson'' = Inr sample_rows"
    by (simp add: sample_env_def)
  from keep_count_truncation [OF rf sample_rows_valid, of ?F "[]"]
  obtain out where out: "read_labels_file ?F sample_env ''labels.geojson'' (Some ''Main_Damag'')
        [''undamaged'', ''damaged''] [] = (Inr out, [] @ [ReadFile ''labels.geojson''])
     \<and> (\<exists>rest. spec_coordinates (Some ''Main_Damag'') [''undamaged'', ''damaged''] sample_rows = out @ rest)
     \<and> (\<forall>n. num_keep_labeled_examples ?F = Some n \<and> 0 < n \<longrightarrow>
          out = take (nat n) (spec_coordinates (Some ''Main_Damag'') [''undamaged'', ''damaged''] sample_rows))
     \<and> (num_keep_labeled_examples ?F = None \<or> num_keep_labeled_examples ?F = Some 0 \<longrightarrow>
          out = spec_coordinates (Some ''Main_Damag'') [''undamaged'', ''damaged''] sample_rows)"
    by (rule exE)
  note run = out [THEN conjunct1]
  note pos = out [THEN conjunct2, THEN conjunct2, THEN conjunct1, rule_format, of 2]
  have k: "num_keep_labeled_examples ?F = Some 2" by simp
  have "out = take (nat 2) (spec_coordinates (Some ''Main_Damag'') [''undamaged'', ''damaged''] sample_rows)"
    by (rule pos) (simp add: k)
  then have o: "out = [(1, 10, Finite 1), (2, 20, Finite 0)]"
    by (simp add: sample_coordinates)
  show ?thesis
  proof (intro conjI)
    show "read_file sample_env ''labels.geojson'' = Inr sample_rows" by (rule rf)
    show "list_all (\<lambda>r. \<not> is_Fatal (spec_row (Some ''Main_Damag'') [''undamaged'', ''damaged''] r)) sample_rows"
      using sample_rows_valid by (simp add: list_all_iff)
    show "read_labels_file ?F sample_env ''labels.geojson'' (Some ''Main_Damag'')
        [''undamaged'', ''damaged''] [] = (Inr [(1, 10, Finite 1), (2, 20, Finite 0)], [ReadFile ''labels.geojson''])"
      using run unfolding o by simp
  qed
qed

text \<open>
  The claim C7 as first stated speaks of every nonzero keep-count. With the keep-count
  \<open>-1\<close> and five valid rows, \<^verbatim>\<open>coordinates[:-1]\<close> keeps the first four, which
  are not the first \<open>N\<close> coordinates for \<open>N = -1\<close>.
\<close>

theorem keep_count_negative_counterexample:
  "read_labels_file (sample_flags\<lparr>num_keep_labeled_examples := Some (- 1)\<rparr>) sample_env
        ''labels.geojson'' (Some ''Main_Damag'') [''undamaged'', ''damaged''] []
       = (Inr [(1, 10, Finite 1), (2, 20, Finite 0), (3, 30, Finite 2), (4, 40, Finite (1 / 2))], [ReadFile ''labels.geojson''])
   \<and> [(1, 10, Finite 1), (2, 20, Finite 0), (3, 30, Finite 2), (4, 40, Finite (1 / 2))]
       \<noteq> take (nat (- 1)) (spec_coordinates (Some ''Main_Damag'') [''undamaged'', ''damaged''] sample_rows)
   \<and> \<not> int (length [(1::real, 10::real, Finite 1), (2, 20, Finite 0), (3, 30, Finite 2), (4, 40, Finite (1 / 2))]) \<le> - 1"
proof -
  have rf: "read_file sample_env ''labels.geojson'' = Inr sample_rows"
    by (simp add: sample_env_def)
  have loop: "read_labels_loop (Some ''Main_Damag'') [''undamaged'', ''damaged''] sample_rows []
      = Inr [(1, 10, Finite 1), (2, 20, Finite 0), (3, 30, Finite 2), (4, 40, Finite (1 / 2)), (5, 50, Finite 1)]"
    using read_labels_loop_valid [OF sample_rows_valid, of "[]"] by (simp add: sample_coordinates)
  have k: "num_keep_labeled_examples (sample_flags\<lparr>num_keep_labeled_examples := Some (- 1)\<rparr>) = Some (- 1)"
    by simp
  have cut: "slice_to [(1::real, 10::real, Finite 1), (2, 20, Finite 0), (3, 30, Finite 2), (4, 40, Finite (1 / 2)), (5, 50, Finite 1)] (- 1)
      = [(1, 10, Finite 1), (2, 20, Finite 0), (3, 30, Finite 2), (4, 40, Finite (1 / 2))]"
    by (simp add: slice_to_def)
  have run: "read_labels_file (sample_flags\<lparr>num_keep_labeled_examples := Some (- 1)\<rparr>) sample_env
        ''labels.geojson'' (Some ''Main_Damag'') [''undamaged'', ''damaged''] []
       = (Inr [(1, 10, Finite 1), (2, 20, Finite 0), (3, 30, Finite 2), (4, 40, Finite (1 / 2))], [ReadFile ''labels.geojson''])"
    unfolding read_labels_file_run [OF rf] loop k by (simp add: cut)
  have ne: "[(1, 10, Finite 1), (2, 20, Finite 0), (3, 30, Finite 2), (4, 40, Finite (1 / 2))]
       \<noteq> take (nat (- 1)) (spec_coordinates (Some ''Main_Damag'') [''undamaged'', ''damaged''] sample_rows)"
    by simp
  have len: "\<not> int (length [(1::real, 10::real, Finite 1), (2, 20, Finite 0), (3, 30, Finite 2), (4, 40, Finite (1 / 2))]) \<le> - 1"
    by simp
  from run ne len show ?thesis by (intro conjI)
qed

section \<open>Rules for runs\<close>

lemma run_specD:
  assumes "run_spec m P Q E" and "m t = (r, t')"
  shows "\<exists>new. t' = t @ new \<and> list_all P new" and "case r of Inl e \<Rightarrow> E e | Inr a \<Rightarrow> Q a"
  using assms unfolding run_spec_def by (metis fst_conv snd_conv)+

lemma spec_returns: "Q a \<Longrightarrow> run_spec (returns a) P Q E"
  by (simp add: run_spec_def returns_def)

lemma spec_raise: "E e \<Longrightarrow> run_spec (raise e) P Q E"
  by (simp add: run_spec_def raise_def)

lemma spec_lift: "(case r of Inl e \<Rightarrow> E e | Inr a \<Rightarrow> Q a) \<Longrightarrow> run_spec (lift r) P Q E"
  by (simp add: run_spec_def lift_def)

lemma spec_lift_Inr: "Q a \<Longrightarrow> run_spec (lift (Inr a)) P Q E"
  by (simp add: spec_lift)

lemma spec_lift_Inl: "E e \<Longrightarrow> run_spec (lift (Inl e)) P Q E"
  by (simp add: spec_lift)

lemma spec_call:
  assumes "P ev" and "\<And>msg. r = Inl msg \<Longrightarrow> E (CollaboratorError msg)" and "\<And>a. r = Inr a \<Longrightarrow> Q a"
  shows "run_spec (call ev r) P Q E"
  using assms by (cases r) (simp_all add: run_spec_def call_def)

lemma spec_andthen:
  assumes m: "run_spec m P (\<lambda>a. run_spec (f a) P Q E) E"
  shows "run_spec (andthen m f) P Q E"
  unfolding run_spec_def
proof
  fix t
  obtain r t1 where mt: "m t = (r, t1)" by (cases "m t")
  from run_specD [OF m mt] obtain n1 where t1: "t1 = t @ n1" and p1: "list_all P n1"
    and r: "case r of Inl e \<Rightarrow> E e | Inr a \<Rightarrow> run_spec (f a) P Q E" by blast
  show "\<exists>new. snd (andthen m f t) = t @ new \<and> list_all P new
      \<and> (case fst (andthen m f t) of Inl e \<Rightarrow> E e | Inr a \<Rightarrow> Q a)"
  proof (cases r)
    case (Inl e)
    with mt t1 p1 r show ?thesis by (simp add: andthen_def)
  next
    case (Inr a)
    with r have fa: "run_spec (f a) P Q E" by simp
    obtain r2 t2 where ft: "f a t1 = (r2, t2)" by (cases "f a t1")
    from run_specD [OF fa ft] obtain n2 where t2: "t2 = t1 @ n2" and p2: "list_all P n2"
      and r2: "case r2 of Inl e \<Rightarrow> E e | Inr b \<Rightarrow> Q b" by blast
    have "andthen m f t = (r2, t @ (n1 @ n2))"
      using mt Inr ft t1 t2 by (simp add: andthen_def)
    moreover have "list_all P (n1 @ n2)" using p1 p2 by simp
    ultimately show ?thesis using r2 by auto
  qed
qed

lemma row_get_error: "row_get r key = Inl e \<Longrightarrow> \<exists>k. e = KeyError k"
  by (auto simp: row_get_def split: option.splits)

lemma py_float_of_int_error:
  "py_float_of_int n = Inl e \<Longrightarrow> \<exists>msg. e = OverflowError msg"
  by (auto simp: py_float_of_int_def Let_def split: if_splits)

lemma spec_row_fatal:
  assumes "spec_row prp cn r = Fatal e"
  shows "(\<exists>k. e = KeyError k) \<or> (\<exists>rest. e = ValueError (CHR ''U'' # rest))
     \<or> (\<exists>msg. e = OverflowError msg)"
proof (cases "row_get r prp")
  case (Inl x)
  with assms row_get_error [OF Inl] show ?thesis by (simp add: spec_row_def)
next
  case (Inr v)
  with assms have v: "spec_resolve cn v = Fatal e" by (simp add: spec_row_def)
  show ?thesis
  proof (cases v)
    case (PyStr x)
    with v show ?thesis
      by (auto simp: spec_resolve_def converted_def split: if_splits sum.splits
          dest: py_float_of_int_error)
  next
    case (PyBool x)
    with v show ?thesis by (simp add: spec_resolve_def)
  next
    case (PyInt x)
    with v show ?thesis
      by (auto simp: spec_resolve_def converted_def split: sum.splits
          dest: py_float_of_int_error)
  next
    case (PyFloat x)
    with v show ?thesis by (simp add: spec_resolve_def)
  next
    case PyNone
    with v show ?thesis by (auto simp: spec_resolve_def)
  next
    case (PyOther x)
    with v show ?thesis by (auto simp: spec_resolve_def)
  qed
qed

lemma read_labels_loop_error:
  "read_labels_loop prp cn rows acc = Inl e \<Longrightarrow>
   (\<exists>k. e = KeyError k) \<or> (\<exists>rest. e = ValueError (CHR ''U'' # rest))
   \<or> (\<exists>msg. e = OverflowError msg)"
proof (induction rows arbitrary: acc)
  case Nil
  then show ?case by simp
next
  case (Cons r rows)
  show ?case
  proof (cases "spec_row prp cn r")
    case (Label f)
    with Cons.prems show ?thesis
      unfolding read_labels_loop_step by (simp add: Cons.IH)
  next
    case Skip
    with Cons.prems show ?thesis
      unfolding read_labels_loop_step by (simp add: Cons.IH)
  next
    case (Fatal x)
    with Cons.prems have "x = e" unfolding read_labels_loop_step by simp
    with Fatal spec_row_fatal show ?thesis by blast
  qed
qed

lemma spec_read_labels_file:
  assumes "P (ReadFile path)" and "\<And>msg. E (CollaboratorError msg)" and "\<And>k. E (KeyError k)"
    and "\<And>rest. E (ValueError (CHR ''U'' # rest))" and "\<And>msg. E (OverflowError msg)"
    and "\<And>cs. Q cs"
  shows "run_spec (read_labels_file F w path prp cn) P Q E"
  unfolding read_labels_file_def
proof (intro spec_andthen spec_call spec_lift)
  show "P (ReadFile path)" by (rule assms(1))
  show "E (CollaboratorError msg)" for msg by (rule assms(2))
  fix df
  show "case read_labels_loop prp cn df [] of
      Inl e \<Rightarrow> E e
    | Inr a \<Rightarrow> run_spec (returns (case num_keep_labeled_examples F of
          None \<Rightarrow> a | Some n \<Rightarrow> if n \<noteq> 0 then slice_to a n else a)) P Q E"
  proof (cases "read_labels_loop prp cn df []")
    case (Inl e)
    from read_labels_loop_error [OF this] assms(3,4,5) show ?thesis using Inl by auto
  next
    case (Inr a)
    then show ?thesis by (simp add: spec_returns assms(6))
  qed
qed

lemma get_gdal_env_error: "get_gdal_env F = Inl e \<Longrightarrow> e = ValueError gdal_env_message"
  unfolding get_gdal_env_def by (rule gdal_env_loop_error_value)

lemma spec_get_building_centroids:
  assumes "buildings_method F = File \<Longrightarrow> P (ReadBuildingsFile (buildings_file F) regions)"
    and "buildings_method F = OpenStreetMap \<Longrightarrow>
         P (GetBuildingCentroidsInRegions regions (overpass_url F))"
    and "\<And>msg. E (CollaboratorError msg)"
    and "buildings_method F = NoBuildings \<Longrightarrow> E (ValueError buildings_method_message)"
    and "\<And>cs. Q cs"
  shows "run_spec (get_building_centroids F w regions) P Q E"
  using assms unfolding get_building_centroids_def
  by (cases "buildings_method F") (auto intro!: spec_call spec_raise)

lemma spec_get_gdal_env:
  assumes "E (ValueError gdal_env_message)" and "\<And>g. get_gdal_env F = Inr g \<Longrightarrow> Q g"
  shows "run_spec (lift (get_gdal_env F)) P Q E"
  using assms by (cases "get_gdal_env F") (auto intro!: spec_lift dest: get_gdal_env_error)

lemma main_container_image_error:
  "main_container_image F w = Inl e \<Longrightarrow> e = ValueError container_image_message"
  by (auto simp: main_container_image_def Let_def split: if_splits)

lemma spec_main_container_image:
  assumes "main_container_image F w = Inl (ValueError container_image_message)
      \<Longrightarrow> E (ValueError container_image_message)"
    and "\<And>img. main_container_image F w = Inr img \<Longrightarrow> Q img"
  shows "run_spec (lift (main_container_image F w)) P Q E"
  using assms
  by (cases "main_container_image F w") (auto intro!: spec_lift dest: main_container_image_error)

lemmas spec_rules =
  spec_andthen spec_returns spec_raise spec_call spec_lift_Inr spec_lift_Inl
  spec_main_container_image spec_get_gdal_env spec_read_labels_file spec_get_building_centroids

lemmas message_defs =
  container_image_message_def no_work_message_def dataset_name_message_def
  labeler_email_message_def gdal_env_message_def buildings_method_message_def

lemma spec_weaken:
  assumes m: "run_spec m P Q E" and p: "\<And>ev. P ev \<Longrightarrow> P' ev"
    and q: "\<And>a. Q a \<Longrightarrow> Q' a" and e: "\<And>x. E x \<Longrightarrow> E' x"
  shows "run_spec m P' Q' E'"
  unfolding run_spec_def
proof
  fix t
  from m obtain new where n: "snd (m t) = t @ new" "list_all P new"
    and c: "case fst (m t) of Inl e \<Rightarrow> E e | Inr a \<Rightarrow> Q a"
    unfolding run_spec_def by blast
  from c have "case fst (m t) of Inl e \<Rightarrow> E' e | Inr a \<Rightarrow> Q' a"
    using q e by (cases "fst (m t)") simp_all
  moreover from n(2) have "list_all P' new" using p by (simp add: list_all_iff)
  ultimately show "\<exists>new. snd (m t) = t @ new \<and> list_all P' new
      \<and> (case fst (m t) of Inl e \<Rightarrow> E' e | Inr a \<Rightarrow> Q' a)" using n(1) by blast
qed

lemma spec_main:
  assumes g: "run_spec (main_generation F w) P (\<lambda>_. True) E"
    and l: "run_spec (main_labeling_task F w) P Q E"
  shows "run_spec (main F w) P Q E"
proof -
  have "run_spec (main_generation F w) P (\<lambda>a. run_spec (main_labeling_task F w) P Q E) E"
    by (rule spec_weaken [OF g]) (simp_all add: l)
  then show ?thesis unfolding main_def by (rule spec_andthen)
qed

lemma message_distinct:
  "container_image_message \<noteq> no_work_message"
  "container_image_message \<noteq> dataset_name_message"
  "container_image_message \<noteq> labeler_email_message"
  "container_image_message \<noteq> gdal_env_message"
  "container_image_message \<noteq> buildings_method_message"
  "no_work_message \<noteq> container_image_message"
  "no_work_message \<noteq> dataset_name_message"
  "no_work_message \<noteq> labeler_email_message"
  "no_work_message \<noteq> gdal_env_message"
  "no_work_message \<noteq> buildings_method_message"
  "dataset_name_message \<noteq> container_image_message"
  "dataset_name_message \<noteq> no_work_message"
  "dataset_name_message \<noteq> labeler_email_message"
  "dataset_name_message \<noteq> gdal_env_message"
  "dataset_name_message \<noteq> buildings_method_message"
  "labeler_email_message \<noteq> container_image_message"
  "labeler_email_message \<noteq> no_work_message"
  "labeler_email_message \<noteq> dataset_name_message"
  "labeler_email_message \<noteq> gdal_env_message"
  "labeler_email_message \<noteq> buildings_method_message"
  "gdal_env_message \<noteq> container_image_message"
  "gdal_env_message \<noteq> no_work_message"
  "gdal_env_message \<noteq> dataset_name_message"
  "gdal_env_message \<noteq> labeler_email_message"
  "gdal_env_message \<noteq> buildings_method_message"
  "buildings_method_message \<noteq> container_image_message"
  "buildings_method_message \<noteq> no_work_message"
  "buildings_method_message \<noteq> dataset_name_message"
  "buildings_method_message \<noteq> labeler_email_message"
  "buildings_method_message \<noteq> gdal_env_message"
  "CHR ''U'' # rest \<noteq> container_image_message"
  "container_image_message \<noteq> CHR ''U'' # rest"
  "CHR ''U'' # rest \<noteq> no_work_message"
  "no_work_message \<noteq> CHR ''U'' # rest"
  "CHR ''U'' # rest \<noteq> dataset_name_message"
  "dataset_name_message \<noteq> CHR ''U'' # rest"
  "CHR ''U'' # rest \<noteq> labeler_email_message"
  "labeler_email_message \<noteq> CHR ''U'' # rest"
  "CHR ''U'' # rest \<noteq> gdal_env_message"
  "gdal_env_message \<noteq> CHR ''U'' # rest"
  "CHR ''U'' # rest \<noteq> buildings_method_message"
  "buildings_method_message \<noteq> CHR ''U'' # rest"
  by (simp_all add: message_defs)

lemma generation_other_errors:
  assumes "main_container_image F w = Inr img"
  shows "run_spec (main_generation F w) (\<lambda>_. True) (\<lambda>_. True)
     (\<lambda>e. e \<noteq> ValueError container_image_message)"
  unfolding main_generation_def
  using assms
  by (auto intro!: spec_rules split: option.splits simp: Let_def message_distinct)

lemma labeling_task_other_errors:
  "run_spec (main_labeling_task F w) (\<lambda>_. True) (\<lambda>_. True)
     (\<lambda>e. e \<noteq> ValueError container_image_message)"
  unfolding main_labeling_task_def
  by (auto intro!: spec_rules split: option.splits simp: Let_def message_distinct)

lemma run_spec_error: "run_spec m P Q E \<Longrightarrow> fst (m t) = Inl e \<Longrightarrow> E e"
  unfolding run_spec_def by (metis sum.simps(5))

lemma run_spec_events: "run_spec m P Q E \<Longrightarrow> m [] = (r, t') \<Longrightarrow> ev \<in> set t' \<Longrightarrow> P ev"
  unfolding run_spec_def list_all_iff by (metis append_Nil snd_conv)

lemma andthen_Inl: "m t = (Inl e, t') \<Longrightarrow> andthen m f t = (Inl e, t')"
  by (simp add: andthen_def)

lemma andthen_Inr: "m t = (Inr a, t') \<Longrightarrow> andthen m f t = f a t'"
  by (simp add: andthen_def)

lemma main_generation_image_error:
  assumes "main_container_image F w = Inl e"
  shows "main_generation F w t = (Inl e, t)"
  unfolding main_generation_def using assms by (simp add: andthen_lift)

lemma labeling_task_image:
  "run_spec (main_labeling_task F w) (\<lambda>ev. \<forall>a. ev \<noteq> GenerateExamplesPipeline a) (\<lambda>_. True) (\<lambda>_. True)"
  unfolding main_labeling_task_def
  by (auto intro!: spec_andthen spec_returns spec_raise spec_call
      split: option.splits simp: Let_def)

lemma main_pipeline_image_gen:
  "run_spec (main_generation F w)
     (\<lambda>ev. \<forall>a. ev = GenerateExamplesPipeline a \<longrightarrow>
        main_container_image F w = Inr (pa_dataflow_container_image a))
     (\<lambda>_. True) (\<lambda>_. True)"
  unfolding main_generation_def
  by (auto intro!: spec_rules split: option.splits simp: Let_def)

section \<open>Properties of the orchestrator\<close>

text \<open>
  C5. With Dataflow selected and no container image configured, the image is derived
  from the first three characters of the interpreter's version: for \<^verbatim>\<open>3.7\<close>,
  \<^verbatim>\<open>3.8\<close> and \<^verbatim>\<open>3.9\<close> it is the default image of that version; for any
  other version \<^verbatim>\<open>main\<close> raises its \<open>ValueError\<close> before any collaborator is
  called. Without Dataflow, or with an image configured, the configured value is used as
  it is and \<^verbatim>\<open>main\<close> never raises that error, whatever the version. The image
  handed to the pipeline is the one so determined.
\<close>

theorem container_image_default:
  "(use_dataflow F \<and> dataflow_container_image F = None
      \<and> take 3 (python_version w) \<in> {''3.7'', ''3.8'', ''3.9''}
     \<longrightarrow> main_container_image F w =
          Inr (Some (''gcr.io/disaster-assessment/dataflow_'' @ take 3 (python_version w)
                      @ ''_image:latest'')))
   \<and> (use_dataflow F \<and> dataflow_container_image F = None
      \<and> take 3 (python_version w) \<notin> {''3.7'', ''3.8'', ''3.9''}
     \<longrightarrow> main_container_image F w = Inl (ValueError container_image_message)
        \<and> main F w t = (Inl (ValueError container_image_message), t))
   \<and> (\<not> use_dataflow F \<or> dataflow_container_image F \<noteq> None
     \<longrightarrow> main_container_image F w = Inr (dataflow_container_image F)
        \<and> fst (main F w t) \<noteq> Inl (ValueError container_image_message))
   \<and> (\<forall>r t' a. main F w [] = (r, t') \<and> GenerateExamplesPipeline a \<in> set t'
     \<longrightarrow> main_container_image F w = Inr (pa_dataflow_container_image a))"
proof (intro conjI impI allI)
  assume "use_dataflow F \<and> dataflow_container_image F = None
      \<and> take 3 (python_version w) \<in> {''3.7'', ''3.8'', ''3.9''}"
  then show "main_container_image F w =
      Inr (Some (''gcr.io/disaster-assessment/dataflow_'' @ take 3 (python_version w)
                  @ ''_image:latest''))"
    by (auto simp: main_container_image_def Let_def)
next
  assume a: "use_dataflow F \<and> dataflow_container_image F = None
      \<and> take 3 (python_version w) \<notin> {''3.7'', ''3.8'', ''3.9''}"
  then show e: "main_container_image F w = Inl (ValueError container_image_message)"
    by (auto simp: main_container_image_def Let_def)
  show "main F w t = (Inl (ValueError container_image_message), t)"
    unfolding main_def by (rule andthen_Inl) (rule main_generation_image_error [OF e])
next
  assume a: "\<not> use_dataflow F \<or> dataflow_container_image F \<noteq> None"
  then show ok: "main_container_image F w = Inr (dataflow_container_image F)"
    by (auto simp: main_container_image_def Let_def)
  have "run_spec (main F w) (\<lambda>_. True) (\<lambda>_. True) (\<lambda>e. e \<noteq> ValueError container_image_message)"
    by (rule spec_main [OF generation_other_errors [OF ok] labeling_task_other_errors])
  then show "fst (main F w t) \<noteq> Inl (ValueError container_image_message)"
    by (auto dest: run_spec_error)
next
  fix r t' a
  assume a: "main F w [] = (r, t') \<and> GenerateExamplesPipeline a \<in> set t'"
  have "run_spec (main F w)
     (\<lambda>ev. \<forall>a. ev = GenerateExamplesPipeline a \<longrightarrow>
        main_container_image F w = Inr (pa_dataflow_container_image a))
     (\<lambda>_. True) (\<lambda>_. True)"
    by (rule spec_main [OF main_pipeline_image_gen])
      (rule spec_weaken [OF labeling_task_image], simp_all)
  from run_spec_events [OF this, of r t' "GenerateExamplesPipeline a"] a
  show "main_container_image F w = Inr (pa_dataflow_container_image a)" by simp
qed

theorem container_image_default_witness:
  "main_container_image (sample_flags\<lparr>use_dataflow := True\<rparr>) sample_env
     = Inr (Some ''gcr.io/disaster-assessment/dataflow_3.8_image:latest'')
   \<and> main (sample_flags\<lparr>use_dataflow := True\<rparr>) (sample_env\<lparr>python_version := ''3.10.4''\<rparr>) []
     = (Inl (ValueError container_image_message), [])
   \<and> main_container_image sample_flags (sample_env\<lparr>python_version := ''3.10.4''\<rparr>) = Inr None"
proof -
  let ?F = "sample_flags\<lparr>use_dataflow := True\<rparr>"
  let ?w = "sample_env\<lparr>python_version := ''3.10.4''\<rparr>"
  have f: "use_dataflow ?F" "dataflow_container_image ?F = None"
    "\<not> use_dataflow sample_flags" "dataflow_container_image sample_flags = None"
    by (simp_all add: sample_flags_def default_flags_def)
  have v: "take 3 (python_version sample_env) = ''3.8''" "take 3 (python_version ?w) = ''3.1''"
    by (simp_all add: sample_env_def)
  have 1: "main_container_image ?F sample_env
     = Inr (Some ''gcr.io/disaster-assessment/dataflow_3.8_image:latest'')"
    using container_image_default [of ?F sample_env "[]", THEN conjunct1] f v by simp
  have 2: "main ?F ?w [] = (Inl (ValueError container_image_message), [])"
    using container_image_default [of ?F ?w "[]", THEN conjunct2, THEN conjunct1] f v by simp
  have 3: "main_container_image sample_flags ?w = Inr None"
    using container_image_default [of sample_flags ?w "[]", THEN conjunct2, THEN conjunct2,
        THEN conjunct1] f by simp
  from 1 2 3 show ?thesis by (intro conjI)
qed

lemma get_building_centroids_none:
  "buildings_method F = NoBuildings \<Longrightarrow>
   get_building_centroids F w regions t = (Inl (ValueError buildings_method_message), t)"
  by (simp add: get_building_centroids_def raise_def)

lemma generation_none_events:
  "buildings_method F = NoBuildings \<Longrightarrow>
   run_spec (main_generation F w)
     (\<lambda>ev. (\<forall>p. ev \<noteq> ReadAois p) \<and> (\<forall>f rs. ev \<noteq> ReadBuildingsFile f rs)
          \<and> (\<forall>rs u. ev \<noteq> GetBuildingCentroidsInRegions rs u)
          \<and> (\<forall>a. ev = GenerateExamplesPipeline a \<longrightarrow> pa_building_centroids a = []))
     (\<lambda>_. True) (\<lambda>_. True)"
  unfolding main_generation_def
  by (auto intro!: spec_rules split: option.splits simp: Let_def)

lemma labeling_task_events:
  "run_spec (main_labeling_task F w)
     (\<lambda>ev. (\<forall>p. ev \<noteq> ReadAois p) \<and> (\<forall>f rs. ev \<noteq> ReadBuildingsFile f rs)
          \<and> (\<forall>rs u. ev \<noteq> GetBuildingCentroidsInRegions rs u)
          \<and> (\<forall>a. ev \<noteq> GenerateExamplesPipeline a))
     (\<lambda>_. True) (\<lambda>_. True)"
  unfolding main_labeling_task_def
  by (auto intro!: spec_rules split: option.splits simp: Let_def)

lemma main_none_events:
  assumes "buildings_method F = NoBuildings"
  shows "run_spec (main F w)
     (\<lambda>ev. (\<forall>p. ev \<noteq> ReadAois p) \<and> (\<forall>f rs. ev \<noteq> ReadBuildingsFile f rs)
          \<and> (\<forall>rs u. ev \<noteq> GetBuildingCentroidsInRegions rs u)
          \<and> (\<forall>a. ev = GenerateExamplesPipeline a \<longrightarrow> pa_building_centroids a = []))
     (\<lambda>_. True) (\<lambda>_. True)"
  by (rule spec_main [OF generation_none_events [OF assms]])
    (rule spec_weaken [OF labeling_task_events], simp_all)

lemma sample_flags_fields:
  "buildings_method sample_flags = NoBuildings"
  "labels_file sample_flags = Some ''labels.geojson''"
  "label_property sample_flags = Some ''Main_Damag''"
  "label_classes sample_flags = [''undamaged'', ''damaged'']"
  "num_keep_labeled_examples sample_flags = Some 1000"
  "gdal_env sample_flags = []"
  "use_dataflow sample_flags = False"
  "dataflow_container_image sample_flags = None"
  by (simp_all add: sample_flags_def default_flags_def)

lemma generation_no_work:
  assumes "buildings_method F = NoBuildings" and "\<not> truthy (labels_file F)"
  shows "main_generation F w t =
     (case main_container_image F w of
        Inl e \<Rightarrow> (Inl e, t)
      | Inr img \<Rightarrow> (Inl (ValueError no_work_message), t))"
  unfolding main_generation_def using assms
  by (simp add: andthen_lift andthen_raise split: sum.splits)

lemma generation_work_errors:
  assumes "buildings_method F \<noteq> NoBuildings \<or> truthy (labels_file F)"
  shows "run_spec (main_generation F w) (\<lambda>_. True) (\<lambda>_. True)
     (\<lambda>e. e \<noteq> ValueError no_work_message)"
  unfolding main_generation_def using assms
  by (auto intro!: spec_rules split: option.splits simp: Let_def message_distinct)

lemma labeling_task_work_errors:
  "run_spec (main_labeling_task F w) (\<lambda>_. True) (\<lambda>_. True)
     (\<lambda>e. e \<noteq> ValueError no_work_message)"
  unfolding main_labeling_task_def
  by (auto intro!: spec_rules split: option.splits simp: Let_def message_distinct)

lemma generation_none_labels:
  assumes n: "buildings_method F = NoBuildings" and l: "labels_file F = Some path" "path \<noteq> []"
    and img: "main_container_image F w = Inr img"
    and rd: "read_labels_file F w path (label_property F) (label_classes F) t = (Inr lc, t1)"
    and g: "get_gdal_env F = Inr g"
  shows "\<exists>a. main_generation F w t =
        ((case generate_examples_pipeline w a of
            Inl msg \<Rightarrow> Inl (CollaboratorError msg) | Inr u \<Rightarrow> Inr u),
         t1 @ [GenerateExamplesPipeline a])
      \<and> pa_building_centroids a = [] \<and> pa_labeled_coordinates a = lc"
proof -
  have tr: "truthy (labels_file F)" using l by (simp add: truthy_def)
  show ?thesis
    unfolding main_generation_def
    using n l tr img g
    by (simp add: andthen_def lift_def returns_def call_def Let_def rd)
qed


lemma sample_read_labels:
  "read_labels_file sample_flags sample_env ''labels.geojson'' (Some ''Main_Damag'')
      [''undamaged'', ''damaged''] []
     = (Inr [(1, 10, Finite 1), (2, 20, Finite 0), (3, 30, Finite 2), (4, 40, Finite (1 / 2)), (5, 50, Finite 1)],
        [ReadFile ''labels.geojson''])"
proof -
  have rf: "read_file sample_env ''labels.geojson'' = Inr sample_rows"
    by (simp add: sample_env_def)
  have loop: "read_labels_loop (Some ''Main_Damag'') [''undamaged'', ''damaged''] sample_rows []
      = Inr [(1, 10, Finite 1), (2, 20, Finite 0), (3, 30, Finite 2), (4, 40, Finite (1 / 2)), (5, 50, Finite 1)]"
    using read_labels_loop_valid [OF sample_rows_valid, of "[]"] by (simp add: sample_coordinates)
  show ?thesis
    unfolding read_labels_file_run [OF rf] loop sample_flags_fields
    by (simp add: slice_to_def)
qed

text \<open>
  C4. With building-discovery mode \<^verbatim>\<open>none\<close> and no labels file, \<^verbatim>\<open>main\<close>
  always ends in a fatal error before any collaborator is called, and once the container
  image check has passed the error is the "no work" \<open>ValueError\<close>; that error is raised
  in no other configuration. With mode \<^verbatim>\<open>none\<close> and a labels file, no area of
  interest is read, and when the image check, the reading of the labels and the parsing
  of the raster-I/O environment succeed, the pipeline is called with no building
  centroids and with the labeled coordinates read from the file.
\<close>

theorem no_work_rejection:
  "(buildings_method F = NoBuildings \<and> \<not> truthy (labels_file F) \<longrightarrow>
      (\<exists>e. main F w t = (Inl e, t))
      \<and> (\<forall>img. main_container_image F w = Inr img \<longrightarrow>
            main F w t = (Inl (ValueError no_work_message), t)))
   \<and> (fst (main F w t) = Inl (ValueError no_work_message) \<longrightarrow>
        buildings_method F = NoBuildings \<and> \<not> truthy (labels_file F))
   \<and> (buildings_method F = NoBuildings \<and> truthy (labels_file F) \<longrightarrow>
        (\<forall>r t' ev. main F w [] = (r, t') \<and> ev \<in> set t' \<longrightarrow>
           (\<forall>p. ev \<noteq> ReadAois p)
           \<and> (\<forall>a. ev = GenerateExamplesPipeline a \<longrightarrow> pa_building_centroids a = []))
        \<and> (\<forall>img path lc t1 g.
             main_container_image F w = Inr img \<and> labels_file F = Some path
             \<and> read_labels_file F w path (label_property F) (label_classes F) t = (Inr lc, t1)
             \<and> get_gdal_env F = Inr g
             \<longrightarrow> (\<exists>a. main_generation F w t =
                        ((case generate_examples_pipeline w a of
                            Inl msg \<Rightarrow> Inl (CollaboratorError msg) | Inr u \<Rightarrow> Inr u),
                         t1 @ [GenerateExamplesPipeline a])
                      \<and> pa_building_centroids a = [] \<and> pa_labeled_coordinates a = lc)))"
proof -
  have 1: "buildings_method F = NoBuildings \<and> \<not> truthy (labels_file F) \<longrightarrow>
      (\<exists>e. main F w t = (Inl e, t))
      \<and> (\<forall>img. main_container_image F w = Inr img \<longrightarrow>
            main F w t = (Inl (ValueError no_work_message), t))"
  proof
    assume a: "buildings_method F = NoBuildings \<and> \<not> truthy (labels_file F)"
    then have g: "main_generation F w t =
       (case main_container_image F w of
          Inl e \<Rightarrow> (Inl e, t)
        | Inr img \<Rightarrow> (Inl (ValueError no_work_message), t))"
      by (simp add: generation_no_work)
    have x: "\<exists>e. main F w t = (Inl e, t)"
    proof (cases "main_container_image F w")
      case (Inl e)
      with g have "main_generation F w t = (Inl e, t)" by simp
      then have "main F w t = (Inl e, t)" unfolding main_def by (rule andthen_Inl)
      then show ?thesis ..
    next
      case (Inr img)
      with g have "main_generation F w t = (Inl (ValueError no_work_message), t)" by simp
      then have "main F w t = (Inl (ValueError no_work_message), t)"
        unfolding main_def by (rule andthen_Inl)
      then show ?thesis ..
    qed
    have y: "\<forall>img. main_container_image F w = Inr img \<longrightarrow>
            main F w t = (Inl (ValueError no_work_message), t)"
    proof (intro allI impI)
      fix img assume "main_container_image F w = Inr img"
      with g have "main_generation F w t = (Inl (ValueError no_work_message), t)" by simp
      then show "main F w t = (Inl (ValueError no_work_message), t)"
        unfolding main_def by (rule andthen_Inl)
    qed
    from x y show "(\<exists>e. main F w t = (Inl e, t))
      \<and> (\<forall>img. main_container_image F w = Inr img \<longrightarrow>
            main F w t = (Inl (ValueError no_work_message), t))" by (rule conjI)
  qed
  have 2: "fst (main F w t) = Inl (ValueError no_work_message) \<longrightarrow>
        buildings_method F = NoBuildings \<and> \<not> truthy (labels_file F)"
  proof (rule impI, rule ccontr)
    assume e: "fst (main F w t) = Inl (ValueError no_work_message)"
    assume "\<not> (buildings_method F = NoBuildings \<and> \<not> truthy (labels_file F))"
    then have "buildings_method F \<noteq> NoBuildings \<or> truthy (labels_file F)" by simp
    from spec_main [OF generation_work_errors [OF this] labeling_task_work_errors]
    have "run_spec (main F w) (\<lambda>_. True) (\<lambda>_. True) (\<lambda>e. e \<noteq> ValueError no_work_message)" .
    from run_spec_error [OF this e] show False by simp
  qed
  have 3: "buildings_method F = NoBuildings \<and> truthy (labels_file F) \<longrightarrow>
        (\<forall>r t' ev. main F w [] = (r, t') \<and> ev \<in> set t' \<longrightarrow>
           (\<forall>p. ev \<noteq> ReadAois p)
           \<and> (\<forall>a. ev = GenerateExamplesPipeline a \<longrightarrow> pa_building_centroids a = []))
        \<and> (\<forall>img path lc t1 g.
             main_container_image F w = Inr img \<and> labels_file F = Some path
             \<and> read_labels_file F w path (label_property F) (label_classes F) t = (Inr lc, t1)
             \<and> get_gdal_env F = Inr g
             \<longrightarrow> (\<exists>a. main_generation F w t =
                        ((case generate_examples_pipeline w a of
                            Inl msg \<Rightarrow> Inl (CollaboratorError msg) | Inr u \<Rightarrow> Inr u),
                         t1 @ [GenerateExamplesPipeline a])
                      \<and> pa_building_centroids a = [] \<and> pa_labeled_coordinates a = lc))"
  proof
    assume a: "buildings_method F = NoBuildings \<and> truthy (labels_file F)"
    then have n: "buildings_method F = NoBuildings" and tr: "truthy (labels_file F)" by simp_all
    have x: "\<forall>r t' ev. main F w [] = (r, t') \<and> ev \<in> set t' \<longrightarrow>
           (\<forall>p. ev \<noteq> ReadAois p)
           \<and> (\<forall>a. ev = GenerateExamplesPipeline a \<longrightarrow> pa_building_centroids a = [])"
    proof (intro allI impI)
      fix r t' ev
      assume "main F w [] = (r, t') \<and> ev \<in> set t'"
      then have m: "main F w [] = (r, t')" and ev: "ev \<in> set t'" by simp_all
      from run_spec_events [OF main_none_events [OF n] m ev]
      show "(\<forall>p. ev \<noteq> ReadAois p)
           \<and> (\<forall>a. ev = GenerateExamplesPipeline a \<longrightarrow> pa_building_centroids a = [])"
        by simp
    qed
    have y: "\<forall>img path lc t1 g.
             main_container_image F w = Inr img \<and> labels_file F = Some path
             \<and> read_labels_file F w path (label_property F) (label_classes F) t = (Inr lc, t1)
             \<and> get_gdal_env F = Inr g
             \<longrightarrow> (\<exists>a. main_generation F w t =
                        ((case generate_examples_pipeline w a of
                            Inl msg \<Rightarrow> Inl (CollaboratorError msg) | Inr u \<Rightarrow> Inr u),
                         t1 @ [GenerateExamplesPipeline a])
                      \<and> pa_building_centroids a = [] \<and> pa_labeled_coordinates a = lc)"
    proof (intro allI impI, elim conjE)
      fix img path lc t1 g
      assume img: "main_container_image F w = Inr img" and l: "labels_file F = Some path"
        and rd: "read_labels_file F w path (label_property F) (label_classes F) t = (Inr lc, t1)"
        and g: "get_gdal_env F = Inr g"
      from tr l have ne: "path \<noteq> []" by (simp add: truthy_def)
      show "\<exists>a. main_generation F w t =
                        ((case generate_examples_pipeline w a of
                            Inl msg \<Rightarrow> Inl (CollaboratorError msg) | Inr u \<Rightarrow> Inr u),
                         t1 @ [GenerateExamplesPipeline a])
                      \<and> pa_building_centroids a = [] \<and> pa_labeled_coordinates a = lc"
        by (rule generation_none_labels [OF n l ne img rd g])
    qed
    from x y show "(\<forall>r t' ev. main F w [] = (r, t') \<and> ev \<in> set t' \<longrightarrow>
           (\<forall>p. ev \<noteq> ReadAois p)
           \<and> (\<forall>a. ev = GenerateExamplesPipeline a \<longrightarrow> pa_building_centroids a = []))
        \<and> (\<forall>img path lc t1 g.
             main_container_image F w = Inr img \<and> labels_file F = Some path
             \<and> read_labels_file F w path (label_property F) (label_classes F) t = (Inr lc, t1)
             \<and> get_gdal_env F = Inr g
             \<longrightarrow> (\<exists>a. main_generation F w t =
                        ((case generate_examples_pipeline w a of
                            Inl msg \<Rightarrow> Inl (CollaboratorError msg) | Inr u \<Rightarrow> Inr u),
                         t1 @ [GenerateExamplesPipeline a])
                      \<and> pa_building_centroids a = [] \<and> pa_labeled_coordinates a = lc))"
      by (rule conjI)
  qed
  from 1 2 3 show ?thesis by (intro conjI)
qed

theorem no_work_rejection_witness:
  "main (sample_flags\<lparr>labels_file := None\<rparr>) sample_env [] = (Inl (ValueError no_work_message), [])
   \<and> (\<exists>a. main_generation sample_flags sample_env [] =
          (Inr (), [ReadFile ''labels.geojson'', GenerateExamplesPipeline a])
        \<and> pa_building_centroids a = []
        \<and> pa_labeled_coordinates a =
            [(1, 10, Finite 1), (2, 20, Finite 0), (3, 30, Finite 2), (4, 40, Finite (1 / 2)), (5, 50, Finite 1)])"
proof -
  let ?F = "sample_flags\<lparr>labels_file := None\<rparr>"
  have f: "buildings_method ?F = NoBuildings" "\<not> truthy (labels_file ?F)"
    by (simp_all add: sample_flags_fields truthy_def)
  have i: "main_container_image ?F sample_env = Inr None"
    "main_container_image sample_flags sample_env = Inr None"
    by (simp_all add: main_container_image_def sample_flags_fields)
  have a: "main ?F sample_env [] = (Inl (ValueError no_work_message), [])"
    using no_work_rejection [of ?F sample_env "[]", THEN conjunct1] f i(1) by simp
  have tr: "truthy (labels_file sample_flags)" by (simp add: sample_flags_fields truthy_def)
  have g: "get_gdal_env sample_flags = Inr Map.empty"
    by (simp add: get_gdal_env_def sample_flags_fields)
  have rd: "read_labels_file sample_flags sample_env ''labels.geojson''
      (label_property sample_flags) (label_classes sample_flags) []
     = (Inr [(1, 10, Finite 1), (2, 20, Finite 0), (3, 30, Finite 2), (4, 40, Finite (1 / 2)), (5, 50, Finite 1)],
        [ReadFile ''labels.geojson''])"
    unfolding sample_flags_fields by (rule sample_read_labels)
  note t = no_work_rejection [of sample_flags sample_env "[]", THEN conjunct2, THEN conjunct2,
      rule_format, OF conjI [OF sample_flags_fields(1) tr], THEN conjunct2, rule_format,
      OF conjI [OF i(2) conjI [OF sample_flags_fields(2) conjI [OF rd g]]]]
  have p: "generate_examples_pipeline sample_env a = Inr ()" for a
    by (simp add: sample_env_def)
  from t have b: "\<exists>a. main_generation sample_flags sample_env [] =
          (Inr (), [ReadFile ''labels.geojson'', GenerateExamplesPipeline a])
        \<and> pa_building_centroids a = []
        \<and> pa_labeled_coordinates a =
            [(1, 10, Finite 1), (2, 20, Finite 0), (3, 30, Finite 2), (4, 40, Finite (1 / 2)), (5, 50, Finite 1)]"
    by (simp add: p)
  from a b show ?thesis by (rule conjI)
qed

lemma andthen_last:
  assumes run: "andthen m f t = (Inr b, t')"
    and ext: "run_spec m (\<lambda>_. True) (\<lambda>_. True) (\<lambda>_. True)"
    and rest: "\<And>a t1. f a t1 = (Inr b, t') \<Longrightarrow> \<exists>pre ev. t' = t1 @ pre @ [ev] \<and> R ev"
  shows "\<exists>pre ev. t' = t @ pre @ [ev] \<and> R ev"
proof -
  obtain r t1 where mt: "m t = (r, t1)" by (cases "m t")
  from run_specD(1) [OF ext mt] obtain new where t1: "t1 = t @ new" by blast
  show ?thesis
  proof (cases r)
    case (Inl e)
    with mt run show ?thesis by (simp add: andthen_def)
  next
    case (Inr a)
    with mt run have "f a t1 = (Inr b, t')" by (simp add: andthen_def)
    from rest [OF this] obtain pre ev where "t' = t1 @ pre @ [ev]" and r: "R ev" by blast
    with t1 have "t' = t @ (new @ pre) @ [ev]" by simp
    with r show ?thesis by blast
  qed
qed

lemma call_last:
  assumes "call ev r t1 = (Inr b, t')"
  shows "\<exists>pre ev'. t' = t1 @ pre @ [ev'] \<and> (ev' = ev \<and> r = Inr b)"
proof -
  from assms have "t' = t1 @ [] @ [ev]" and "r = Inr b"
    by (auto simp: call_def split: sum.splits)
  then show ?thesis by blast
qed

lemma main_generation_success:
  assumes "main_generation F w t = (Inr u, t')"
  shows "\<exists>pre ev. t' = t @ pre @ [ev]
     \<and> (\<exists>a. ev = GenerateExamplesPipeline a \<and> generate_examples_pipeline w a = Inr u)"
  using assms unfolding main_generation_def Let_def
  apply -
  apply (erule andthen_last)
   apply (auto intro!: spec_rules)[1]
  apply (erule andthen_last)
   apply (auto intro!: spec_rules)[1]
  apply (erule andthen_last)
   apply (auto intro!: spec_rules)[1]
  apply (erule andthen_last)
   apply (auto intro!: spec_rules split: option.splits)[1]
  apply (erule andthen_last)
   apply (auto intro!: spec_rules)[1]
  apply (drule call_last)
  apply blast
  done


lemma generation_dataset_errors:
  "run_spec (main_generation F w) (\<lambda>_. True) (\<lambda>_. True)
     (\<lambda>e. e \<noteq> ValueError dataset_name_message)"
  unfolding main_generation_def
  by (auto intro!: spec_rules split: option.splits simp: Let_def message_distinct)

lemma labeling_task_dataset_errors:
  assumes "\<not> (create_cloud_labeling_task F \<and> \<not> truthy (dataset_name F))"
  shows "run_spec (main_labeling_task F w) (\<lambda>_. True) (\<lambda>_. True)
     (\<lambda>e. e \<noteq> ValueError dataset_name_message)"
  unfolding main_labeling_task_def using assms
  by (auto intro!: spec_rules split: option.splits simp: Let_def message_distinct)

lemma labeling_task_no_name:
  assumes "create_cloud_labeling_task F" and "\<not> truthy (dataset_name F)"
  shows "main_labeling_task F w t = (Inl (ValueError dataset_name_message), t)"
  unfolding main_labeling_task_def using assms by (simp add: raise_def)

lemma main_after_generation:
  assumes "main_generation F w t = (Inr u, t1)"
  shows "main F w t = main_labeling_task F w t1"
  unfolding main_def using assms by (simp add: andthen_def)

lemma main_dataset_error:
  assumes m: "main F w t = (Inl (ValueError dataset_name_message), t')"
  shows "create_cloud_labeling_task F \<and> \<not> truthy (dataset_name F)
     \<and> main_generation F w t = (Inr (), t')"
proof -
  obtain r t1 where g: "main_generation F w t = (r, t1)" by (cases "main_generation F w t")
  show ?thesis
  proof (cases r)
    case (Inl e)
    with g have "main F w t = (Inl e, t1)" unfolding main_def by (simp add: andthen_def)
    with m have e: "e = ValueError dataset_name_message" by simp
    from g Inl have "fst (main_generation F w t) = Inl e" by simp
    from run_spec_error [OF generation_dataset_errors this] e show ?thesis by simp
  next
    case (Inr u)
    with g have l: "main_labeling_task F w t1 = (Inl (ValueError dataset_name_message), t')"
      using m main_after_generation by simp
    have c: "create_cloud_labeling_task F \<and> \<not> truthy (dataset_name F)"
    proof (rule ccontr)
      assume "\<not> (create_cloud_labeling_task F \<and> \<not> truthy (dataset_name F))"
      from run_spec_error [OF labeling_task_dataset_errors [OF this], of w t1] l
      show False by simp
    qed
    then have "main_labeling_task F w t1 = (Inl (ValueError dataset_name_message), t1)"
      by (simp add: labeling_task_no_name)
    with l have "t' = t1" by simp
    with g Inr c show ?thesis by simp
  qed
qed

lemma sample_read_labels_keep:
  assumes "num_keep_labeled_examples F = Some 1000"
  shows "read_labels_file F sample_env ''labels.geojson'' (Some ''Main_Damag'')
      [''undamaged'', ''damaged''] []
     = (Inr [(1, 10, Finite 1), (2, 20, Finite 0), (3, 30, Finite 2), (4, 40, Finite (1 / 2)), (5, 50, Finite 1)],
        [ReadFile ''labels.geojson''])"
proof -
  have rf: "read_file sample_env ''labels.geojson'' = Inr sample_rows"
    by (simp add: sample_env_def)
  have loop: "read_labels_loop (Some ''Main_Damag'') [''undamaged'', ''damaged''] sample_rows []
      = Inr [(1, 10, Finite 1), (2, 20, Finite 0), (3, 30, Finite 2), (4, 40, Finite (1 / 2)), (5, 50, Finite 1)]"
    using read_labels_loop_valid [OF sample_rows_valid, of "[]"] by (simp add: sample_coordinates)
  show ?thesis
    unfolding read_labels_file_run [OF rf] loop assms
    by (simp add: slice_to_def)
qed

lemma sample_generation:
  assumes "buildings_method F = NoBuildings" and "labels_file F = Some ''labels.geojson''"
    and "label_property F = Some ''Main_Damag''" and "label_classes F = [''undamaged'', ''damaged'']"
    and "num_keep_labeled_examples F = Some 1000" and "gdal_env F = []"
    and "use_dataflow F = False"
  shows "\<exists>a. main_generation F sample_env [] =
     (Inr (), [ReadFile ''labels.geojson'', GenerateExamplesPipeline a])"
proof -
  have img: "main_container_image F sample_env = Inr (dataflow_container_image F)"
    using assms(7) by (simp add: main_container_image_def)
  have g: "get_gdal_env F = Inr Map.empty" using assms(6) by (simp add: get_gdal_env_def)
  have rd: "read_labels_file F sample_env ''labels.geojson'' (label_property F) (label_classes F) []
     = (Inr [(1, 10, Finite 1), (2, 20, Finite 0), (3, 30, Finite 2), (4, 40, Finite (1 / 2)), (5, 50, Finite 1)],
        [ReadFile ''labels.geojson''])"
    unfolding assms(3,4) by (rule sample_read_labels_keep [OF assms(5)])
  have p: "generate_examples_pipeline sample_env a = Inr ()" for a
    by (simp add: sample_env_def)
  from generation_none_labels [OF assms(1,2) _ img rd g]
  show ?thesis by (auto simp: p)
qed

text \<open>
  C10. With the labeling task enabled and no dataset name, \<^verbatim>\<open>main\<close> never
  succeeds, and once the generation has returned it raises the "Dataset name must be
  specified" \<open>ValueError\<close>. Whenever \<^verbatim>\<open>main\<close> ends in that error, the toggle was
  on, the name was missing, and the call of the pipeline is the last event of the trace
  and returned normally: the check comes after the generation engine has run.
\<close>

theorem dataset_name_validation:
  "(create_cloud_labeling_task F \<and> \<not> truthy (dataset_name F) \<longrightarrow>
      (\<forall>t1. main_generation F w t = (Inr (), t1) \<longrightarrow>
         main F w t = (Inl (ValueError dataset_name_message), t1))
      \<and> (\<exists>e. fst (main F w t) = Inl e))
   \<and> (\<forall>t'. main F w t = (Inl (ValueError dataset_name_message), t') \<longrightarrow>
        create_cloud_labeling_task F \<and> \<not> truthy (dataset_name F)
        \<and> main_generation F w t = (Inr (), t')
        \<and> (\<exists>pre a. t' = t @ pre @ [GenerateExamplesPipeline a]
              \<and> generate_examples_pipeline w a = Inr ()))"
proof -
  have 1: "create_cloud_labeling_task F \<and> \<not> truthy (dataset_name F) \<longrightarrow>
      (\<forall>t1. main_generation F w t = (Inr (), t1) \<longrightarrow>
         main F w t = (Inl (ValueError dataset_name_message), t1))
      \<and> (\<exists>e. fst (main F w t) = Inl e)"
  proof
    assume "create_cloud_labeling_task F \<and> \<not> truthy (dataset_name F)"
    then have c: "create_cloud_labeling_task F" and n: "\<not> truthy (dataset_name F)" by simp_all
    have x: "\<forall>t1. main_generation F w t = (Inr (), t1) \<longrightarrow>
         main F w t = (Inl (ValueError dataset_name_message), t1)"
      by (simp add: main_after_generation labeling_task_no_name [OF c n])
    have y: "\<exists>e. fst (main F w t) = Inl e"
    proof -
      obtain r t1 where g: "main_generation F w t = (r, t1)" by (cases "main_generation F w t")
      show ?thesis
      proof (cases r)
        case (Inl e)
        with g have "main F w t = (Inl e, t1)" unfolding main_def by (simp add: andthen_def)
        then show ?thesis by simp
      next
        case (Inr u)
        with g x show ?thesis by simp
      qed
    qed
    from x y show "(\<forall>t1. main_generation F w t = (Inr (), t1) \<longrightarrow>
         main F w t = (Inl (ValueError dataset_name_message), t1))
      \<and> (\<exists>e. fst (main F w t) = Inl e)" by (rule conjI)
  qed
  have 2: "\<forall>t'. main F w t = (Inl (ValueError dataset_name_message), t') \<longrightarrow>
        create_cloud_labeling_task F \<and> \<not> truthy (dataset_name F)
        \<and> main_generation F w t = (Inr (), t')
        \<and> (\<exists>pre a. t' = t @ pre @ [GenerateExamplesPipeline a]
              \<and> generate_examples_pipeline w a = Inr ())"
  proof (intro allI impI)
    fix t'
    assume m: "main F w t = (Inl (ValueError dataset_name_message), t')"
    note d = main_dataset_error [OF m]
    then have g: "main_generation F w t = (Inr (), t')" by simp
    from main_generation_success [OF g]
    have "\<exists>pre a. t' = t @ pre @ [GenerateExamplesPipeline a]
        \<and> generate_examples_pipeline w a = Inr ()" by blast
    with d show "create_cloud_labeling_task F \<and> \<not> truthy (dataset_name F)
        \<and> main_generation F w t = (Inr (), t')
        \<and> (\<exists>pre a. t' = t @ pre @ [GenerateExamplesPipeline a]
              \<and> generate_examples_pipeline w a = Inr ())" by simp
  qed
  from 1 2 show ?thesis by (rule conjI)
qed

theorem dataset_name_validation_witness:
  "\<exists>a. main (sample_flags\<lparr>create_cloud_labeling_task := True\<rparr>) sample_env []
     = (Inl (ValueError dataset_name_message),
        [ReadFile ''labels.geojson'', GenerateExamplesPipeline a])"
proof -
  let ?F = "sample_flags\<lparr>create_cloud_labeling_task := True\<rparr>"
  have c: "create_cloud_labeling_task ?F \<and> \<not> truthy (dataset_name ?F)"
    by (simp add: sample_flags_def default_flags_def truthy_def)
  from sample_generation [of ?F] obtain a where
    g: "main_generation ?F sample_env [] =
      (Inr (), [ReadFile ''labels.geojson'', GenerateExamplesPipeline a])"
    by (auto simp: sample_flags_fields)
  from dataset_name_validation [of ?F sample_env "[]", THEN conjunct1, rule_format, OF c,
      THEN conjunct1, rule_format, OF g]
  show ?thesis ..
qed

lemma slice_to_one: "slice_to (e # es) 1 = [e]"
  by (simp add: slice_to_def)









lemma task_main_creates_pool:
  assumes "task_cloud_labeler_pool T = None" and "task_cloud_labeler_emails T = Some (e # es)"
    and "create_labeling_images w (examples_pattern T) (max_images T) (images_dir T) = Inr x"
  shows "\<exists>r rest. task_main T w t =
     (r, t @ [CreateLabelingImages (examples_pattern T) (max_images T) (images_dir T),
              CreateSpecialistPool (Some (task_cloud_project T)) (Some (cloud_location T))
                (timestamped_dataset_of (task_dataset_name T) (localtime w) @ ''_pool'')
                [e] (e # es)] @ rest)"
  using assms unfolding task_main_def
  by (auto simp: Let_def andthen_def call_def raise_def returns_def slice_to_one
      split: sum.splits option.splits prod.splits)



lemma generation_none_errors:
  assumes "buildings_method F = NoBuildings"
  shows "run_spec (main_generation F w) (\<lambda>_. True) (\<lambda>_. True)
     (\<lambda>e. e \<noteq> ValueError buildings_method_message)"
  unfolding main_generation_def using assms
  by (auto intro!: spec_rules split: option.splits simp: Let_def message_distinct)

lemma labeling_task_resolver_errors:
  "run_spec (main_labeling_task F w) (\<lambda>_. True) (\<lambda>_. True)
     (\<lambda>e. e \<noteq> ValueError buildings_method_message)"
  unfolding main_labeling_task_def
  by (auto intro!: spec_rules split: option.splits simp: Let_def message_distinct)

lemma sample_main:
  assumes "main_generation sample_flags sample_env [] = (Inr (), t1)"
  shows "main sample_flags sample_env [] = (Inr (), t1)"
proof -
  have "main_labeling_task sample_flags sample_env t1 = (Inr (), t1)"
    by (simp add: main_labeling_task_def returns_def sample_flags_def default_flags_def)
  with main_after_generation [OF assms] show ?thesis by simp
qed

text \<open>
  C3 (amended). With building-discovery mode \<^verbatim>\<open>none\<close>,
  \<^verbatim>\<open>get_building_centroids\<close> raises its \<open>ValueError\<close> for any list of regions
  and calls nothing. The empty sequence of building centroids comes from
  \<^verbatim>\<open>main\<close>, which does not call the resolver in that mode: it never ends in
  the resolver's error, reads no area of interest, calls neither source of buildings,
  and, when the image check, the reading of the labels and the parsing of the
  raster-I/O environment succeed, calls the pipeline with the empty list of building
  centroids.
\<close>

theorem none_mode_centroids:
  "buildings_method F = NoBuildings \<longrightarrow>
     get_building_centroids F w regions t = (Inl (ValueError buildings_method_message), t)
     \<and> fst (main F w t) \<noteq> Inl (ValueError buildings_method_message)
     \<and> (\<forall>r t' ev. main F w [] = (r, t') \<and> ev \<in> set t' \<longrightarrow>
           (\<forall>p. ev \<noteq> ReadAois p) \<and> (\<forall>f rs. ev \<noteq> ReadBuildingsFile f rs)
           \<and> (\<forall>rs u. ev \<noteq> GetBuildingCentroidsInRegions rs u)
           \<and> (\<forall>a. ev = GenerateExamplesPipeline a \<longrightarrow> pa_building_centroids a = []))
     \<and> (\<forall>img path lc t1 g.
           main_container_image F w = Inr img \<and> labels_file F = Some path \<and> path \<noteq> []
           \<and> read_labels_file F w path (label_property F) (label_classes F) t = (Inr lc, t1)
           \<and> get_gdal_env F = Inr g
           \<longrightarrow> (\<exists>a. main_generation F w t =
                      ((case generate_examples_pipeline w a of
                          Inl msg \<Rightarrow> Inl (CollaboratorError msg) | Inr u \<Rightarrow> Inr u),
                       t1 @ [GenerateExamplesPipeline a])
                    \<and> pa_building_centroids a = []))"
proof
  assume n: "buildings_method F = NoBuildings"
  have a: "get_building_centroids F w regions t = (Inl (ValueError buildings_method_message), t)"
    by (rule get_building_centroids_none [OF n])
  have e: "fst (main F w t) \<noteq> Inl (ValueError buildings_method_message)"
  proof
    assume x: "fst (main F w t) = Inl (ValueError buildings_method_message)"
    from run_spec_error [OF spec_main [OF generation_none_errors [OF n]
          labeling_task_resolver_errors] x]
    show False by simp
  qed
  have b: "\<forall>r t' ev. main F w [] = (r, t') \<and> ev \<in> set t' \<longrightarrow>
           (\<forall>p. ev \<noteq> ReadAois p) \<and> (\<forall>f rs. ev \<noteq> ReadBuildingsFile f rs)
           \<and> (\<forall>rs u. ev \<noteq> GetBuildingCentroidsInRegions rs u)
           \<and> (\<forall>a. ev = GenerateExamplesPipeline a \<longrightarrow> pa_building_centroids a = [])"
  proof (intro allI impI)
    fix r t' ev
    assume "main F w [] = (r, t') \<and> ev \<in> set t'"
    then have m: "main F w [] = (r, t')" and ev: "ev \<in> set t'" by simp_all
    from run_spec_events [OF main_none_events [OF n] m ev]
    show "(\<forall>p. ev \<noteq> ReadAois p) \<and> (\<forall>f rs. ev \<noteq> ReadBuildingsFile f rs)
           \<and> (\<forall>rs u. ev \<noteq> GetBuildingCentroidsInRegions rs u)
           \<and> (\<forall>a. ev = GenerateExamplesPipeline a \<longrightarrow> pa_building_centroids a = [])"
      by simp
  qed
  have c: "\<forall>img path lc t1 g.
           main_container_image F w = Inr img \<and> labels_file F = Some path \<and> path \<noteq> []
           \<and> read_labels_file F w path (label_property F) (label_classes F) t = (Inr lc, t1)
           \<and> get_gdal_env F = Inr g
           \<longrightarrow> (\<exists>a. main_generation F w t =
                      ((case generate_examples_pipeline w a of
                          Inl msg \<Rightarrow> Inl (CollaboratorError msg) | Inr u \<Rightarrow> Inr u),
                       t1 @ [GenerateExamplesPipeline a])
                    \<and> pa_building_centroids a = [])"
  proof (intro allI impI, elim conjE)
    fix img path lc t1 g
    assume img: "main_container_image F w = Inr img" and l: "labels_file F = Some path"
      and ne: "path \<noteq> []"
      and rd: "read_labels_file F w path (label_property F) (label_classes F) t = (Inr lc, t1)"
      and g: "get_gdal_env F = Inr g"
    from generation_none_labels [OF n l ne img rd g]
    show "\<exists>a. main_generation F w t =
                      ((case generate_examples_pipeline w a of
                          Inl msg \<Rightarrow> Inl (CollaboratorError msg) | Inr u \<Rightarrow> Inr u),
                       t1 @ [GenerateExamplesPipeline a])
                    \<and> pa_building_centroids a = []" by blast
  qed
  show "get_building_centroids F w regions t = (Inl (ValueError buildings_method_message), t)
     \<and> fst (main F w t) \<noteq> Inl (ValueError buildings_method_message)
     \<and> (\<forall>r t' ev. main F w [] = (r, t') \<and> ev \<in> set t' \<longrightarrow>
           (\<forall>p. ev \<noteq> ReadAois p) \<and> (\<forall>f rs. ev \<noteq> ReadBuildingsFile f rs)
           \<and> (\<forall>rs u. ev \<noteq> GetBuildingCentroidsInRegions rs u)
           \<and> (\<forall>a. ev = GenerateExamplesPipeline a \<longrightarrow> pa_building_centroids a = []))
     \<and> (\<forall>img path lc t1 g.
           main_container_image F w = Inr img \<and> labels_file F = Some path \<and> path \<noteq> []
           \<and> read_labels_file F w path (label_property F) (label_classes F) t = (Inr lc, t1)
           \<and> get_gdal_env F = Inr g
           \<longrightarrow> (\<exists>a. main_generation F w t =
                      ((case generate_examples_pipeline w a of
                          Inl msg \<Rightarrow> Inl (CollaboratorError msg) | Inr u \<Rightarrow> Inr u),
                       t1 @ [GenerateExamplesPipeline a])
                    \<and> pa_building_centroids a = []))"
    apply (rule conjI, rule a)
    apply (rule conjI, rule e)
    apply (rule conjI, rule b)
    apply (rule c)
    done
qed

theorem none_mode_centroids_witness:
  "get_building_centroids sample_flags sample_env [] []
       = (Inl (ValueError buildings_method_message), [])
   \<and> (\<exists>a. main sample_flags sample_env [] =
          (Inr (), [ReadFile ''labels.geojson'', GenerateExamplesPipeline a])
        \<and> pa_building_centroids a = [])"
proof -
  note t = none_mode_centroids [of sample_flags sample_env "[]" "[]", rule_format,
      OF sample_flags_fields(1)]
  have a: "get_building_centroids sample_flags sample_env [] []
       = (Inl (ValueError buildings_method_message), [])"
    by (rule t [THEN conjunct1])
  have i: "main_container_image sample_flags sample_env = Inr None"
    by (simp add: main_container_image_def sample_flags_fields)
  have g: "get_gdal_env sample_flags = Inr Map.empty"
    by (simp add: get_gdal_env_def sample_flags_fields)
  have rd: "read_labels_file sample_flags sample_env ''labels.geojson''
      (label_property sample_flags) (label_classes sample_flags) []
     = (Inr [(1, 10, Finite 1), (2, 20, Finite 0), (3, 30, Finite 2), (4, 40, Finite (1 / 2)), (5, 50, Finite 1)],
        [ReadFile ''labels.geojson''])"
    unfolding sample_flags_fields by (rule sample_read_labels)
  have ne: "''labels.geojson'' \<noteq> []" by simp
  note l = t [THEN conjunct2, THEN conjunct2, THEN conjunct2, rule_format,
      OF conjI [OF i conjI [OF sample_flags_fields(2) conjI [OF ne conjI [OF rd g]]]]]
  have p: "generate_examples_pipeline sample_env a = Inr ()" for a
    by (simp add: sample_env_def)
  from l obtain a where
    gen: "main_generation sample_flags sample_env [] =
      (Inr (), [ReadFile ''labels.geojson'', GenerateExamplesPipeline a])"
    and bc: "pa_building_centroids a = []"
    by (auto simp: p)
  from sample_main [OF gen] bc
  have "\<exists>a. main sample_flags sample_env [] =
          (Inr (), [ReadFile ''labels.geojson'', GenerateExamplesPipeline a])
        \<and> pa_building_centroids a = []" by blast
  with a show ?thesis by (rule conjI)
qed

text \<open>
  The claim C3 as first stated has \<^verbatim>\<open>get_building_centroids\<close> return the empty
  sequence in mode \<^verbatim>\<open>none\<close>; called in that mode it raises instead.
\<close>

theorem get_building_centroids_none_counterexample:
  "get_building_centroids sample_flags sample_env [[(0, 0), (0, 1), (1, 1)]] []
     = (Inl (ValueError buildings_method_message), [])
   \<and> fst (get_building_centroids sample_flags sample_env [[(0, 0), (0, 1), (1, 1)]] []) \<noteq> Inr []"
  by (simp add: get_building_centroids_def raise_def sample_flags_fields)













section \<open>The time-stamped dataset name\<close>















end
